theory Spec2Isabelle
  imports Complex_Main "HOL-Library.Char_ord" "HOL-Library.List_Lexorder"
    "HOL-Library.Product_Lexorder" "HOL-Library.Multiset"
begin

section \<open>Python strings\<close>

text \<open>
  A Python \<open>str\<close> is modelled as a \<open>string\<close> whose characters are read as ASCII code
  points. The character classes below are those of \<open>str.isspace\<close>, \<open>str.isalnum\<close>,
  \<open>str.upper\<close> and \<open>str.title\<close> on the ASCII range; a character above 127 is treated
  as a caseless symbol that is neither a letter, a digit nor white space.
\<close>

definition is_space :: "char \<Rightarrow> bool" where
  "is_space c = (let n = (of_char c :: nat) in (9 \<le> n \<and> n \<le> 13) \<or> (28 \<le> n \<and> n \<le> 32))"

definition is_lower :: "char \<Rightarrow> bool" where
  "is_lower c = (let n = (of_char c :: nat) in 97 \<le> n \<and> n \<le> 122)"

definition is_upper :: "char \<Rightarrow> bool" where
  "is_upper c = (let n = (of_char c :: nat) in 65 \<le> n \<and> n \<le> 90)"

definition is_digit :: "char \<Rightarrow> bool" where
  "is_digit c = (let n = (of_char c :: nat) in 48 \<le> n \<and> n \<le> 57)"

definition is_alpha :: "char \<Rightarrow> bool" where
  "is_alpha c = (is_lower c \<or> is_upper c)"

definition is_alnum :: "char \<Rightarrow> bool" where
  "is_alnum c = (is_alpha c \<or> is_digit c)"

definition upper_char :: "char \<Rightarrow> char" where
  "upper_char c = (if is_lower c then char_of ((of_char c :: nat) - 32) else c)"

definition lower_char :: "char \<Rightarrow> char" where
  "lower_char c = (if is_upper c then char_of ((of_char c :: nat) + 32) else c)"

text \<open>\<open>str.upper()\<close>.\<close>

definition upper :: "string \<Rightarrow> string" where
  "upper s = map upper_char s"

text \<open>
  \<open>str.title()\<close>: a cased character is upper-cased when the character before it is
  not cased (or there is none) and lower-cased otherwise. The flag is Python's
  \<open>previous_is_cased\<close>.
\<close>

fun title_from :: "bool \<Rightarrow> string \<Rightarrow> string" where
  "title_from prev [] = []"
| "title_from prev (c # cs) =
     (if prev then lower_char c else upper_char c) # title_from (is_alpha c) cs"

definition title :: "string \<Rightarrow> string" where
  "title s = title_from False s"

text \<open>\<open>str.strip()\<close> with no argument removes leading and trailing white space.\<close>

definition lstrip :: "string \<Rightarrow> string" where
  "lstrip s = dropWhile is_space s"

definition rstrip :: "string \<Rightarrow> string" where
  "rstrip s = rev (dropWhile is_space (rev s))"

definition strip :: "string \<Rightarrow> string" where
  "strip s = rstrip (lstrip s)"

text \<open>
  \<open>str.split()\<close> with no argument: the maximal runs of characters that are not white
  space, in order. The first argument is the word being read.
\<close>

fun split_from :: "string \<Rightarrow> string \<Rightarrow> string list" where
  "split_from w [] = (if w = [] then [] else [w])"
| "split_from w (c # cs) =
     (if is_space c then (if w = [] then split_from [] cs else w # split_from [] cs)
      else split_from (w @ [c]) cs)"

definition split :: "string \<Rightarrow> string list" where
  "split s = split_from [] s"

text \<open>
  \<open>str.replace(old, new)\<close> for a non-empty \<open>old\<close>: the occurrences of \<open>old\<close> are
  found from the left, without overlap. Every call in the source has a non-empty
  literal as \<open>old\<close>; an empty \<open>old\<close> leaves the string as it is here.
\<close>

function replace :: "string \<Rightarrow> string \<Rightarrow> string \<Rightarrow> string" where
  "replace old new [] = []"
| "replace old new (c # cs) =
     (if old \<noteq> [] \<and> take (length old) (c # cs) = old
      then new @ replace old new (drop (length old) (c # cs))
      else c # replace old new cs)"
  by pat_completeness auto
termination
  by (relation "measure (\<lambda>(old, new, s). length s)") (auto simp: Suc_le_eq)

text \<open>\<open>sub in s\<close> on strings.\<close>

fun contains :: "string \<Rightarrow> string \<Rightarrow> bool" where
  "contains sub [] = (sub = [])"
| "contains sub (c # cs) = (take (length sub) (c # cs) = sub \<or> contains sub cs)"

section \<open>Helper functions\<close>

definition backslash :: char where
  "backslash = CHR 0x5C"

text \<open>
  \<open>clean_filename\<close>: both path separators become hyphens, then every character that is
  not alphanumeric, a space, a hyphen or an underscore is dropped, then the result is
  stripped.
\<close>

definition clean_filename :: "string \<Rightarrow> string" where
  "clean_filename text =
     (let text1 = replace [backslash] ''-'' (replace ''/'' ''-'' text)
      in strip (filter (\<lambda>c. is_alnum c \<or> c \<in> set [CHR '' '', CHR ''-'', CHR ''_'']) text1))"

text \<open>
  \<open>escape_rtf\<close>. The argument is \<open>None\<close> where \<open>pd.isna(text)\<close> holds; the result is
  then the empty string. Otherwise the three replacements run in the order of the
  source: backslash first, then the opening brace, then the closing brace.
\<close>

definition escape_rtf :: "string option \<Rightarrow> string" where
  "escape_rtf text =
     (case text of
        None \<Rightarrow> []
      | Some s \<Rightarrow>
          replace ''}'' [backslash, CHR ''}'']
            (replace ''{'' [backslash, CHR ''{'']
              (replace [backslash] [backslash, backslash] s)))"

text \<open>The escape of one character, as the specification describes it.\<close>

definition escape_char :: "char \<Rightarrow> string" where
  "escape_char c =
     (if c = backslash then [backslash, backslash]
      else if c = CHR ''{'' then [backslash, CHR ''{'']
      else if c = CHR ''}'' then [backslash, CHR ''}'']
      else [c])"

section \<open>The judge table\<close>

text \<open>
  A row of a roster table. \<open>Number\<close> is \<open>None\<close> where the cell holds no value (NaN).
  A judge row adds \<open>Category\<close> and \<open>Type\<close>, a competitor row adds \<open>Director\<close>.
\<close>

record entry =
  Number :: "int option"
  Name :: string
  Print :: bool

record judge = entry +
  Category :: string
  Type :: string

record competitor = entry +
  Director :: string

text \<open>
  The judges data frame: its rows in order, and whether it has a \<open>Number\<close> column at
  all (the import path builds the frame without one). Where \<open>has_Number\<close> is false the
  \<open>Number\<close> fields of the rows are not read.
\<close>

record judges_df =
  has_Number :: bool
  rows :: "judge list"

definition categories :: "string list" where
  "categories = [''MUS'', ''PER'', ''SNG'']"

definition is_official :: "string \<Rightarrow> judge \<Rightarrow> bool" where
  "is_official cat r = (Category r = cat \<and> Type r = ''Official'')"

definition is_practice :: "string \<Rightarrow> judge \<Rightarrow> bool" where
  "is_practice cat r = (Category r = cat \<and> Type r = ''Practice'')"

definition count_rows :: "(judge \<Rightarrow> bool) \<Rightarrow> judge list \<Rightarrow> nat" where
  "count_rows msk rs = length (filter msk rs)"

subsection \<open>\<open>balance_and_sort_judges\<close>\<close>

definition absent_judge :: "string \<Rightarrow> judge" where
  "absent_judge cat =
     \<lparr>Number = Some 0, Name = ''Absent '' @ cat @ '' Judge'', Print = False,
      Category = cat, Type = ''Official''\<rparr>"

definition max_official_count :: "judge list \<Rightarrow> nat" where
  "max_official_count rs =
     fold (\<lambda>cat max_count.
             let count = count_rows (is_official cat) rs
             in if count > max_count then count else max_count)
          categories 0"

definition new_rows :: "judge list \<Rightarrow> judge list" where
  "new_rows rs =
     (let max_count = max_official_count rs
      in concat (map (\<lambda>cat. replicate (max_count - count_rows (is_official cat) rs)
                                 (absent_judge cat))
                     categories))"

text \<open>
  The placeholder rows are appended with \<open>pd.concat\<close>; they bring a \<open>Number\<close> column,
  so a frame that had none gets one, empty (NaN) on the rows it had.
\<close>

definition balance_and_sort_judges :: "judges_df \<Rightarrow> judges_df" where
  "balance_and_sort_judges df =
     (if max_official_count (rows df) > 0 \<and> new_rows (rows df) \<noteq> []
      then \<lparr>has_Number = True,
            rows = (if has_Number df then rows df
                    else map (\<lambda>r. r\<lparr>Number := None\<rparr>) (rows df))
                   @ new_rows (rows df)\<rparr>
      else df)"

subsection \<open>\<open>calculate_numbers\<close>\<close>

definition clean_row :: "judge \<Rightarrow> judge" where
  "clean_row r = r\<lparr>Category := strip (upper (Category r)), Type := strip (title (Type r))\<rparr>"

text \<open>
  The last word of the stripped name. A stripped string that is not empty has at least
  one word (lemma \<open>split_strip_not_empty\<close>), so \<open>[-1]\<close> never raises.
\<close>

definition Sort_Last_Name :: "judge \<Rightarrow> string" where
  "Sort_Last_Name r =
     (if length (strip (Name r)) > 0 then last (split (strip (Name r))) else [])"

definition Sort_Cat :: "judge \<Rightarrow> nat" where
  "Sort_Cat r =
     (if Category r = ''MUS'' then 0 else if Category r = ''PER'' then 1
      else if Category r = ''SNG'' then 2 else 99)"

definition Sort_Type :: "judge \<Rightarrow> nat" where
  "Sort_Type r =
     (if Type r = ''Official'' then 0 else if Type r = ''Practice'' then 1 else 99)"

definition sort_columns :: "judge \<Rightarrow> nat \<times> nat \<times> string" where
  "sort_columns r = (Sort_Cat r, Sort_Type r, Sort_Last_Name r)"

text \<open>
  \<open>sort_values\<close> on several columns orders the rows by the columns lexicographically and
  keeps the prior order of rows with equal keys; \<open>sort_key\<close> is such a stable sort.
\<close>

definition sort_values :: "judge list \<Rightarrow> judge list" where
  "sort_values rs = sort_key sort_columns rs"

text \<open>
  \<open>df.loc[mask, 'Number'] = range(start, ...)\<close>: the rows under the mask take the
  values of the range in row order; the other rows are left as they are.
\<close>

fun assign_range :: "(judge \<Rightarrow> bool) \<Rightarrow> int \<Rightarrow> judge list \<Rightarrow> judge list" where
  "assign_range msk start [] = []"
| "assign_range msk start (r # rs) =
     (if msk r then r\<lparr>Number := Some start\<rparr> # assign_range msk (start + 1) rs
      else r # assign_range msk start rs)"

text \<open>One pass of the loop over \<open>cat_order\<close>; the state is the counter and the rows.\<close>

definition number_category :: "string \<Rightarrow> int \<times> judge list \<Rightarrow> int \<times> judge list" where
  "number_category cat st =
     (let current_official_num = fst st;
          rs = snd st;
          count_official = count_rows (is_official cat) rs;
          st1 = (if count_official > 0
                 then (current_official_num + int count_official,
                       assign_range (is_official cat) current_official_num rs)
                 else (current_official_num, rs));
          count_practice = count_rows (is_practice cat) (snd st1)
      in if count_practice > 0
         then (fst st1, assign_range (is_practice cat) 50 (snd st1))
         else st1)"

text \<open>The whole loop, started with \<open>current_official_num = 1\<close>.\<close>

definition number_all :: "judge list \<Rightarrow> judge list" where
  "number_all rs = snd (fold number_category categories (1, rs))"

definition calculate_numbers :: "judges_df \<Rightarrow> judges_df" where
  "calculate_numbers df =
     (let cleaned = map clean_row (rows df);
          sorted_rows = sort_values cleaned;
          with_number = (if has_Number df then sorted_rows
                         else map (\<lambda>r. r\<lparr>Number := Some 0\<rparr>) sorted_rows)
      in \<lparr>has_Number = True, rows = number_all with_number\<rparr>)"

section \<open>Pages, transformations and overlays\<close>

datatype py_error = ZeroDivisionError | IndexError

text \<open>
  A \<open>Transformation\<close> of the PDF library is a chain of steps, applied to a point from
  the left: \<open>Transformation().scale(s, s).translate(tx, ty)\<close> scales first and
  translates then. \<open>Rotate\<close> takes degrees, counter-clockwise. Python's floats are
  taken as real numbers: rounding is not modelled.
\<close>

datatype step = Scale real real | Translate real real | Rotate real

type_synonym transformation = "step list"

fun apply_step :: "step \<Rightarrow> real \<times> real \<Rightarrow> real \<times> real" where
  "apply_step (Scale sx sy) (x, y) = (sx * x, sy * y)"
| "apply_step (Translate tx ty) (x, y) = (x + tx, y + ty)"
| "apply_step (Rotate d) (x, y) =
     (x * cos (d * pi / 180) - y * sin (d * pi / 180),
      x * sin (d * pi / 180) + y * cos (d * pi / 180))"

definition transform :: "transformation \<Rightarrow> real \<times> real \<Rightarrow> real \<times> real" where
  "transform t pt = fold apply_step t pt"

record contest_context =
  district :: string
  session :: string
  date :: string

record page_data = contest_context +
  comp_name :: string
  comp_num :: "int option"
  director :: string
  judge_name :: string
  judge_num :: "int option"

text \<open>
  What a page shows: the artwork of page \<open>i\<close> of a template file, or the text that
  \<open>create_overlay\<close> draws for one judge and one competitor (kept as the data it is
  drawn from, and the \<open>is_short\<close> flag).
\<close>

datatype content = Template_Art string nat | Overlay_Text page_data bool

text \<open>
  A page: its media box and its content, each piece with the transformation it has
  received so far. \<open>add_transformation\<close> extends the transformation of every piece and
  leaves the media box alone; \<open>merge_page\<close> puts the content of the second page on top
  of the first and keeps the media box of the first.
\<close>

record page =
  mediabox_width :: real
  mediabox_height :: real
  layers :: "(content \<times> transformation) list"

definition add_transformation :: "transformation \<Rightarrow> page \<Rightarrow> page" where
  "add_transformation t p = p\<lparr>layers := map (\<lambda>(c, t0). (c, t0 @ t)) (layers p)\<rparr>"

definition merge_page :: "page \<Rightarrow> page \<Rightarrow> page" where
  "merge_page target other = target\<lparr>layers := layers target @ layers other\<rparr>"

subsection \<open>\<open>apply_margin_to_page\<close>\<close>

definition apply_margin_to_page :: "real \<Rightarrow> page \<Rightarrow> py_error + page" where
  "apply_margin_to_page margin_inch p =
     (let margin_pt = margin_inch * 72;
          width = mediabox_width p;
          height = mediabox_height p;
          safe_width = width - 2 * margin_pt;
          safe_height = height - 2 * margin_pt
      in if width = 0 \<or> height = 0 then Inl ZeroDivisionError
         else
           let scale_x = safe_width / width;
               scale_y = safe_height / height;
               scale = min scale_x scale_y;
               tx = (width - width * scale) / 2;
               ty = (height - height * scale) / 2
           in Inr (add_transformation [Scale scale scale, Translate tx ty] p))"

subsection \<open>\<open>create_overlay\<close> and \<open>get_page_data\<close>\<close>

definition get_page_data :: "judge \<Rightarrow> competitor \<Rightarrow> contest_context \<Rightarrow> page_data" where
  "get_page_data judge cmp contest_info =
     \<lparr>district = district contest_info, session = session contest_info,
      date = date contest_info, comp_name = Name cmp, comp_num = Number cmp,
      director = Director cmp, judge_name = Name judge, judge_num = Number judge\<rparr>"

text \<open>The overlay is one page of letter size, 612 by 792 points.\<close>

definition create_overlay :: "page_data \<Rightarrow> bool \<Rightarrow> page" where
  "create_overlay data is_short =
     \<lparr>mediabox_width = 612, mediabox_height = 792,
      layers = [(Overlay_Text data is_short, [])]\<rparr>"

section \<open>Templates\<close>

definition FORMAT_MAPPING :: "(string \<times> string list) list" where
  "FORMAT_MAPPING =
     [(''MUS'', [''MUS_Long.pdf'', ''MUS_Short.pdf'']),
      (''PER'', [''PER_Long.pdf'', ''PER_Short.pdf'']),
      (''SNG'', [''SNG_Long.pdf'', ''SNG_Short.pdf''])]"

definition CAT_FULL_NAMES :: "(string \<times> string) list" where
  "CAT_FULL_NAMES =
     [(''MUS'', ''Musicality''), (''PER'', ''Performance''), (''SNG'', ''Singing'')]"

definition TEMPLATE_DIR :: string where
  "TEMPLATE_DIR = ''templates''"

text \<open>
  The template directory: a path is mapped to the media boxes of the pages of the PDF
  file there, or to \<open>None\<close> where \<open>os.path.exists\<close> is false.
\<close>

type_synonym template_files = "string \<Rightarrow> (real \<times> real) list option"

definition template_path :: "string \<Rightarrow> string" where
  "template_path t_name = TEMPLATE_DIR @ ''/'' @ t_name"

definition template_page :: "string \<Rightarrow> nat \<Rightarrow> real \<times> real \<Rightarrow> page" where
  "template_page t_name i box =
     \<lparr>mediabox_width = fst box, mediabox_height = snd box,
      layers = [(Template_Art t_name i, [])]\<rparr>"

section \<open>Composing pages\<close>

text \<open>The results of the passes of a loop, in order; the first exception ends the loop.\<close>

fun concat_results :: "(py_error + 'a list) list \<Rightarrow> py_error + 'a list" where
  "concat_results [] = Inr []"
| "concat_results (x # xs) =
     (case x of
        Inl e \<Rightarrow> Inl e
      | Inr ys \<Rightarrow> (case concat_results xs of Inl e \<Rightarrow> Inl e | Inr zs \<Rightarrow> Inr (ys @ zs)))"

text \<open>
  \<open>for i in range(0, len(competitor_list), 2)\<close>: the competitor at \<open>i\<close> and, where
  there is one, the competitor at \<open>i + 1\<close>.
\<close>

fun pairs :: "'a list \<Rightarrow> ('a \<times> 'a option) list" where
  "pairs [] = []"
| "pairs [x] = [(x, None)]"
| "pairs (x # y # zs) = (x, Some y) # pairs zs"

text \<open>One pass of the short-form loop: one composed page for one or two competitors.\<close>

definition short_form_page ::
  "(real \<times> real) list \<Rightarrow> string \<Rightarrow> judge \<Rightarrow> contest_context \<Rightarrow> competitor \<Rightarrow>
   competitor option \<Rightarrow> py_error + page" where
  "short_form_page sizes t_name judge ctx comp1 comp2 =
     (case sizes of
        [] \<Rightarrow> Inl IndexError
      | box # _ \<Rightarrow>
          (let target_page = template_page t_name 0 box
           in case apply_margin_to_page (1 / 4)
                     (create_overlay (get_page_data judge comp1 ctx) True) of
                Inl e \<Rightarrow> Inl e
              | Inr overlay1 \<Rightarrow>
                  (case comp2 of
                     None \<Rightarrow> Inr (merge_page target_page overlay1)
                   | Some c2 \<Rightarrow>
                       (case apply_margin_to_page (1 / 4)
                               (create_overlay (get_page_data judge c2 ctx) True) of
                          Inl e \<Rightarrow> Inl e
                        | Inr overlay2 \<Rightarrow>
                            Inr (merge_page (merge_page target_page overlay1)
                                   (add_transformation [Rotate 180, Translate 612 792]
                                      overlay2))))))"

definition short_form_pages ::
  "(real \<times> real) list \<Rightarrow> string \<Rightarrow> judge \<Rightarrow> contest_context \<Rightarrow> competitor list \<Rightarrow>
   py_error + page list" where
  "short_form_pages sizes t_name judge ctx competitor_list =
     concat_results
       (map (\<lambda>(comp1, comp2).
               case short_form_page sizes t_name judge ctx comp1 comp2 of
                 Inl e \<Rightarrow> Inl e
               | Inr target_page \<Rightarrow> Inr [target_page])
            (pairs competitor_list))"

text \<open>
  The long-form loop: for every competitor every page of the template, the first one
  with the overlay merged onto it.
\<close>

definition long_form_pages ::
  "(real \<times> real) list \<Rightarrow> string \<Rightarrow> judge \<Rightarrow> contest_context \<Rightarrow> competitor list \<Rightarrow>
   py_error + page list" where
  "long_form_pages sizes t_name judge ctx competitor_list =
     concat_results
       (map (\<lambda>cmp.
               concat_results
                 (map (\<lambda>(i_page, box).
                         let target_page = template_page t_name i_page box
                         in if i_page = 0
                            then (case apply_margin_to_page (1 / 4)
                                         (create_overlay (get_page_data judge cmp ctx) False) of
                                    Inl e \<Rightarrow> Inl e
                                  | Inr info_page \<Rightarrow> Inr [merge_page target_page info_page])
                            else Inr [target_page])
                      (enumerate 0 sizes)))
            competitor_list)"

section \<open>Generated files and what a button does\<close>

datatype file_content = Pdf "page list" | Rtf string | Zip "(string \<times> file_content) list"

datatype outcome =
    Error_Message string
  | Exception_Message py_error
  | Warning_Message string
  | Download string file_content

text \<open>\<open>strftime("%m/%d/%Y")\<close> for a date with a year of four digits.\<close>

record date_obj =
  year :: nat
  month :: nat
  day :: nat

definition digit_char :: "nat \<Rightarrow> char" where
  "digit_char n = char_of (48 + n mod 10)"

function digits :: "nat \<Rightarrow> string" where
  "digits n = (if n < 10 then [digit_char n] else digits (n div 10) @ [digit_char n])"
  by pat_completeness auto
termination
  by (relation "measure id") auto

declare digits.simps [simp del]

definition zfill :: "nat \<Rightarrow> string \<Rightarrow> string" where
  "zfill w s = replicate (w - length s) CHR ''0'' @ s"

definition strftime_mdY :: "date_obj \<Rightarrow> string" where
  "strftime_mdY d =
     zfill 2 (digits (month d)) @ ''/'' @ zfill 2 (digits (day d)) @ ''/''
       @ zfill 4 (digits (year d))"

text \<open>
  \<open>str(j_num)\<close> after \<open>try: j_num = int(float(x)) except: j_num = x\<close>: the decimal
  digits of the number, or \<open>nan\<close> for an empty cell.
\<close>

definition str_number :: "int option \<Rightarrow> string" where
  "str_number x =
     (case x of
        None \<Rightarrow> ''nan''
      | Some i \<Rightarrow> (if i < 0 then ''-'' @ digits (nat (- i)) else digits (nat i)))"

definition contest_context_of :: "string \<Rightarrow> date_obj \<Rightarrow> string \<Rightarrow> contest_context" where
  "contest_context_of c_district c_date_obj c_session =
     \<lparr>district = c_district, session = c_session, date = strftime_mdY c_date_obj\<rparr>"

definition safe_session :: "contest_context \<Rightarrow> string" where
  "safe_session ctx = clean_filename (session ctx)"

definition safe_date :: "contest_context \<Rightarrow> string" where
  "safe_date ctx = clean_filename (date ctx)"

subsection \<open>Option 1: by judge\<close>

text \<open>
  The pages that one template adds to the packet of one judge. A template whose name
  does not contain \<open>Long\<close> is skipped, then a template whose file is missing.
\<close>

definition judge_template_pages ::
  "template_files \<Rightarrow> judge \<Rightarrow> contest_context \<Rightarrow> competitor list \<Rightarrow> string \<Rightarrow>
   py_error + page list" where
  "judge_template_pages files judge ctx competitor_list t_name =
     (if \<not> contains ''Long'' t_name then Inr []
      else case files (template_path t_name) of
             None \<Rightarrow> Inr []
           | Some sizes \<Rightarrow>
               (if contains ''Short'' t_name
                then (if sizes = [] then Inl IndexError
                      else short_form_pages sizes t_name judge ctx competitor_list)
                else long_form_pages sizes t_name judge ctx competitor_list))"

text \<open>The packet of one judge: no file for number 0, for no template, or for no page.\<close>

definition judge_packet ::
  "template_files \<Rightarrow> contest_context \<Rightarrow> competitor list \<Rightarrow> judge \<Rightarrow>
   py_error + (string \<times> page list) list" where
  "judge_packet files ctx competitor_list judge =
     (if Number judge = Some 0 then Inr []
      else
        let templates = (case map_of FORMAT_MAPPING (Category judge) of
                           None \<Rightarrow> [] | Some ts \<Rightarrow> ts)
        in if templates = [] then Inr []
           else case concat_results
                       (map (judge_template_pages files judge ctx competitor_list) templates) of
                  Inl e \<Rightarrow> Inl e
                | Inr writer \<Rightarrow>
                    (if length writer > 0
                     then Inr [(safe_session ctx @ ''_'' @ clean_filename (Name judge) @ ''_''
                                  @ safe_date ctx @ ''.pdf'', writer)]
                     else Inr []))"

definition generated_pdfs ::
  "template_files \<Rightarrow> contest_context \<Rightarrow> judge list \<Rightarrow> competitor list \<Rightarrow>
   py_error + (string \<times> page list) list" where
  "generated_pdfs files ctx active_judges competitor_list =
     concat_results (map (judge_packet files ctx competitor_list) active_judges)"

definition generate_by_judge ::
  "template_files \<Rightarrow> contest_context \<Rightarrow> judge list \<Rightarrow> competitor list \<Rightarrow> outcome" where
  "generate_by_judge files ctx final_judges final_competitors =
     (if district ctx = [] then Error_Message ''Please fill in District.''
      else if final_judges \<noteq> [] \<and> final_competitors \<noteq> [] then
        (let active_judges = filter Print final_judges;
             active_competitors = filter Print final_competitors
         in if active_judges = [] \<or> active_competitors = []
            then Warning_Message ''Please select at least one Judge and one Competitor.''
            else case generated_pdfs files ctx active_judges active_competitors of
                   Inl e \<Rightarrow> Exception_Message e
                 | Inr pdfs \<Rightarrow>
                     (if length pdfs = 1
                      then Download (fst (hd pdfs)) (Pdf (snd (hd pdfs)))
                      else if length pdfs > 1
                      then Download (safe_session ctx @ ''_Judge_Packets.zip'')
                             (Zip (map (\<lambda>(fname, data). (fname, Pdf data)) pdfs))
                      else Warning_Message ''No files generated.''))
      else Error_Message ''Missing Data'')"

subsection \<open>Option 2: by category\<close>

definition category_template_pages ::
  "(real \<times> real) list \<Rightarrow> string \<Rightarrow> contest_context \<Rightarrow> competitor list \<Rightarrow> judge list \<Rightarrow>
   py_error + page list" where
  "category_template_pages sizes t_name ctx competitor_list cat_judges =
     concat_results
       (map (\<lambda>judge.
               if Number judge = Some 0 then Inr []
               else if contains ''Short'' t_name
               then short_form_pages sizes t_name judge ctx competitor_list
               else long_form_pages sizes t_name judge ctx competitor_list)
            cat_judges)"

definition category_files ::
  "template_files \<Rightarrow> contest_context \<Rightarrow> judge list \<Rightarrow> competitor list \<Rightarrow>
   py_error + (string \<times> file_content) list" where
  "category_files files ctx active_judges competitor_list =
     concat_results
       (map (\<lambda>(cat, formats).
               let cat_judges = filter (\<lambda>j. Category j = cat) active_judges
               in if cat_judges = [] then Inr []
                  else concat_results
                         (map (\<lambda>t_name.
                                 case files (template_path t_name) of
                                   None \<Rightarrow> Inr []
                                 | Some sizes \<Rightarrow>
                                     (case category_template_pages sizes t_name ctx
                                             competitor_list cat_judges of
                                        Inl e \<Rightarrow> Inl e
                                      | Inr writer \<Rightarrow>
                                          (if length writer > 0
                                           then Inr [(safe_session ctx @ ''_''
                                                        @ replace ''.pdf'' [] t_name @ ''_''
                                                        @ safe_date ctx @ ''.pdf'', Pdf writer)]
                                           else Inr [])))
                              formats))
            FORMAT_MAPPING)"

definition generate_by_category ::
  "template_files \<Rightarrow> contest_context \<Rightarrow> judge list \<Rightarrow> competitor list \<Rightarrow> outcome" where
  "generate_by_category files ctx final_judges final_competitors =
     (if district ctx = [] then Error_Message ''Please fill in District.''
      else if final_judges \<noteq> [] \<and> final_competitors \<noteq> [] then
        (case category_files files ctx (filter Print final_judges)
                (filter Print final_competitors) of
           Inl e \<Rightarrow> Exception_Message e
         | Inr zf \<Rightarrow>
             (if length zf > 0
              then Download (safe_session ctx @ ''_Category_Files.zip'') (Zip zf)
              else Warning_Message ''No files generated.''))
      else Error_Message ''Missing Data'')"

subsection \<open>The label generators\<close>

text \<open>A control word of the markup: a backslash and the word.\<close>

definition cw :: "string \<Rightarrow> string" where
  "cw w = backslash # w"

definition rtf_label :: "judge \<Rightarrow> competitor \<Rightarrow> contest_context \<Rightarrow> string" where
  "rtf_label judge cmp ctx =
     (let c_name_text = str_number (Number cmp) @ ''. '' @ Name cmp;
          ctx_line = district ctx @ '' - '' @ session ctx @ '', '' @ date ctx;
          c_line_rtf =
            escape_rtf (Some c_name_text)
            @ (if contains ''Chorus'' (session ctx) \<and> strip (Director cmp) \<noteq> []
               then cw ''line '' @ escape_rtf (Some (Director cmp)) else [])
      in (cw ''pard'' @ cw ''qr'' @ cw ''b'' @ cw ''fs32 '') @ escape_rtf (Some (Name judge)) @ ('' - '' @ cw ''fs72 '')
           @ str_number (Number judge) @ (cw ''b0'' @ cw ''fs24'' @ cw ''par'')
         @ (cw ''pard'' @ cw ''ql '') @ c_line_rtf @ cw ''par''
         @ (cw ''pard'' @ cw ''qc '') @ escape_rtf (Some ctx_line) @ cw ''par''
         @ (cw ''pard'' @ cw ''par''))"

text \<open>
  \<open>generate_rtf_content\<close>: one label for every valid judge and every competitor, a page
  break after every label but the last.
\<close>

definition generate_rtf_content ::
  "judge list \<Rightarrow> competitor list \<Rightarrow> contest_context \<Rightarrow> string" where
  "generate_rtf_content judges_df competitors_df ctx =
     (let valid_judges = filter (\<lambda>j. Number j \<noteq> Some 0) judges_df;
          labels = concat (map (\<lambda>judge. map (\<lambda>cmp. rtf_label judge cmp ctx) competitors_df)
                               valid_judges)
      in (''{'' @ cw ''rtf1'' @ cw ''ansi'' @ cw ''deff0'' @ cw ''nouicompat{''
         @ cw ''fonttbl{'' @ cw ''f0'' @ cw ''fnil''
         @ cw ''fcharset0 Arial;}}'')
         @ (''{'' @ cw ''colortbl ;'' @ cw ''red0'' @ cw ''green0''
            @ cw ''blue0;}'')
         @ (cw ''viewkind4'' @ cw ''uc1'' @ cw ''pard'' @ cw ''sa200''
            @ cw ''sl276'' @ cw ''slmult1'' @ cw ''f0'' @ cw ''fs24''
            @ cw ''lang9 '')
         @ concat (map (\<lambda>(current_count, label).
                          label @ (if current_count < length labels then cw ''page '' else []))
                       (enumerate 1 labels))
         @ ''}'')"

definition folder_label_cell :: "judge \<Rightarrow> contest_context \<Rightarrow> string" where
  "folder_label_cell j ctx =
     (let c_short = Category j;
          c_full = (case map_of CAT_FULL_NAMES c_short of None \<Rightarrow> c_short | Some f \<Rightarrow> f)
      in (cw ''pard'' @ cw ''intbl'' @ cw ''qc'' @ cw ''sa0'' @ cw ''sb0'')
         @ (cw ''b'' @ cw ''f0'' @ cw ''fs28 '') @ escape_rtf (Some (Name j)) @ (cw ''b0'' @ cw ''par'')
         @ cw ''fs22 '' @ escape_rtf (Some (c_full @ '' Category'')) @ cw ''par''
         @ cw ''fs20 '' @ escape_rtf (Some (session ctx)) @ cw ''par''
         @ escape_rtf (Some (district ctx)) @ cw ''par''
         @ escape_rtf (Some (date ctx)))"

definition folder_label_row :: "judge \<Rightarrow> judge option \<Rightarrow> contest_context \<Rightarrow> string" where
  "folder_label_row j1 j2 ctx =
     (cw ''trowd'' @ cw ''trgaph108'' @ cw ''trleft0'' @ cw ''trrh2880'')
     @ (cw ''clvertalc'' @ cw ''brdrt'' @ cw ''brdrnil'' @ cw ''brdrl''
        @ cw ''brdrnil'' @ cw ''brdrb'' @ cw ''brdrnil'' @ cw ''brdrr''
        @ cw ''brdrnil'' @ cw ''cellx5760'')
     @ (cw ''clvertalc'' @ cw ''brdrt'' @ cw ''brdrnil'' @ cw ''brdrl''
        @ cw ''brdrnil'' @ cw ''brdrb'' @ cw ''brdrnil'' @ cw ''brdrr''
        @ cw ''brdrnil'' @ cw ''cellx6030'')
     @ (cw ''clvertalc'' @ cw ''brdrt'' @ cw ''brdrnil'' @ cw ''brdrl''
        @ cw ''brdrnil'' @ cw ''brdrb'' @ cw ''brdrnil'' @ cw ''brdrr''
        @ cw ''brdrnil'' @ cw ''cellx11790'')
     @ folder_label_cell j1 ctx
     @ cw ''cell''
     @ (cw ''pard'' @ cw ''intbl'' @ cw ''cell'')
     @ (case j2 of Some j \<Rightarrow> folder_label_cell j ctx | None \<Rightarrow> (cw ''pard'' @ cw ''intbl''))
     @ cw ''cell''
     @ cw ''row''"

definition generate_folder_labels_rtf :: "judge list \<Rightarrow> contest_context \<Rightarrow> string" where
  "generate_folder_labels_rtf judges_df ctx =
     (let active_judges = filter Print judges_df;
          judges = filter (\<lambda>j. Number j \<noteq> Some 0) active_judges
      in (''{'' @ cw ''rtf1'' @ cw ''ansi'' @ cw ''deff0'' @ cw ''nouicompat''
         @ cw ''viewkind4'' @ cw ''uc1'')
         @ (''{'' @ cw ''fonttbl{'' @ cw ''f0'' @ cw ''fnil''
            @ cw ''fcharset0 Arial;}}'')
         @ (''{'' @ cw ''colortbl ;'' @ cw ''red0'' @ cw ''green0''
            @ cw ''blue0;}'')
         @ (cw ''paperw12240'' @ cw ''paperh15840'' @ cw ''margl225''
            @ cw ''margr225'' @ cw ''margt720'' @ cw ''margb720'')
         @ (cw ''pard'' @ cw ''plain'' @ cw ''fs20 '')
         @ concat (map (\<lambda>(j1, j2). folder_label_row j1 j2 ctx) (pairs judges))
         @ ''}'')"

subsection \<open>Option 3: labels only, and the folder labels\<close>

definition label_files ::
  "contest_context \<Rightarrow> judge list \<Rightarrow> competitor list \<Rightarrow> (string \<times> file_content) list" where
  "label_files ctx active_judges active_competitors =
     concat (map (\<lambda>cat.
                    let cat_judges = filter (\<lambda>j. Category j = cat) active_judges
                    in if cat_judges = [] then []
                       else [(safe_session ctx @ ''_'' @ cat @ ''_Labels.rtf'',
                              Rtf (generate_rtf_content cat_judges active_competitors ctx))])
                 [''MUS'', ''PER'', ''SNG''])"

definition generate_labels ::
  "contest_context \<Rightarrow> judge list \<Rightarrow> competitor list \<Rightarrow> outcome" where
  "generate_labels ctx final_judges final_competitors =
     (if district ctx = [] then Error_Message ''Please fill in District.''
      else if final_judges \<noteq> [] \<and> final_competitors \<noteq> [] then
        (let zf = label_files ctx (filter Print final_judges) (filter Print final_competitors)
         in if length zf > 0
            then Download (safe_session ctx @ ''_Labels.zip'') (Zip zf)
            else Warning_Message ''No labels generated.'')
      else Error_Message ''Missing Data'')"

definition generate_folder_labels :: "contest_context \<Rightarrow> judge list \<Rightarrow> outcome" where
  "generate_folder_labels ctx final_judges =
     (if district ctx = [] then Error_Message ''Please fill in District.''
      else if final_judges \<noteq> [] then
        (let rtf_data = generate_folder_labels_rtf final_judges ctx
         in if rtf_data \<noteq> []
            then Download (safe_session ctx @ ''_Folder_Labels.rtf'') (Rtf rtf_data)
            else Warning_Message ''No judges selected.'')
      else Error_Message ''No judges loaded.'')"

section \<open>The margin transformation as the specification states it\<close>

text \<open>
  For a page of width \<open>w\<close> and height \<open>h\<close> and a margin of \<open>m\<close> points: the uniform
  scale \<open>min ((w - 2m) / w) ((h - 2m) / h)\<close>, followed by the translation that centres
  the scaled content on the page.
\<close>

definition margin_scale :: "real \<Rightarrow> real \<Rightarrow> real \<Rightarrow> real" where
  "margin_scale w h m = min ((w - 2 * m) / w) ((h - 2 * m) / h)"

definition margin_transformation :: "real \<Rightarrow> real \<Rightarrow> real \<Rightarrow> transformation" where
  "margin_transformation w h m =
     [Scale (margin_scale w h m) (margin_scale w h m),
      Translate ((w - w * margin_scale w h m) / 2) ((h - h * margin_scale w h m) / 2)]"

section \<open>Closed forms of the generation loops\<close>

text \<open>The overlay of letter size after the margin transformation for 18 points.\<close>

definition margined_overlay :: "page_data \<Rightarrow> bool \<Rightarrow> page" where
  "margined_overlay data is_short =
     add_transformation (margin_transformation 612 792 18) (create_overlay data is_short)"

text \<open>
  The short-form page for one competitor, or for two: the second overlay turned by
  180 degrees and moved by the width and height of the page.
\<close>

definition two_up_page ::
  "real \<times> real \<Rightarrow> string \<Rightarrow> judge \<Rightarrow> contest_context \<Rightarrow>
   competitor \<times> competitor option \<Rightarrow> page" where
  "two_up_page box t_name judge ctx pr =
     (case snd pr of
        None \<Rightarrow> merge_page (template_page t_name 0 box)
                  (margined_overlay (get_page_data judge (fst pr) ctx) True)
      | Some c2 \<Rightarrow>
          merge_page
            (merge_page (template_page t_name 0 box)
               (margined_overlay (get_page_data judge (fst pr) ctx) True))
            (add_transformation [Rotate 180, Translate 612 792]
               (margined_overlay (get_page_data judge c2 ctx) True)))"

text \<open>
  Page \<open>i\<close> of a long template for one competitor: the overlay goes on page 0 only.
\<close>

definition long_page ::
  "string \<Rightarrow> judge \<Rightarrow> contest_context \<Rightarrow> competitor \<Rightarrow> nat \<times> (real \<times> real) \<Rightarrow>
   page" where
  "long_page t_name judge ctx cmp ib =
     (if fst ib = 0
      then merge_page (template_page t_name (fst ib) (snd ib))
             (margined_overlay (get_page_data judge cmp ctx) False)
      else template_page t_name (fst ib) (snd ib))"

text \<open>
  The pages of one long template for one judge: nothing where the file is missing.
\<close>

definition long_pages_of ::
  "template_files \<Rightarrow> judge \<Rightarrow> contest_context \<Rightarrow> competitor list \<Rightarrow> string \<Rightarrow> page list" where
  "long_pages_of files judge ctx competitor_list t_name =
     (case files (template_path t_name) of
        None \<Rightarrow> []
      | Some sizes \<Rightarrow>
          concat (map (\<lambda>cmp. map (long_page t_name judge ctx cmp) (enumerate 0 sizes))
                      competitor_list))"

text \<open>
  The pages of the packet of one judge: those of the templates of the category whose
  name contains \<open>Long\<close>.
\<close>

definition packet_pages ::
  "template_files \<Rightarrow> contest_context \<Rightarrow> competitor list \<Rightarrow> judge \<Rightarrow> page list" where
  "packet_pages files ctx competitor_list judge =
     (case map_of FORMAT_MAPPING (Category judge) of
        None \<Rightarrow> []
      | Some ts \<Rightarrow>
          concat (map (\<lambda>t_name. if contains ''Long'' t_name
                                then long_pages_of files judge ctx competitor_list t_name
                                else [])
                      ts))"

text \<open>
  The content of a long-form page: artwork of a template whose name contains
  \<open>Long\<close>, or an overlay drawn with \<open>is_short = False\<close>.
\<close>

fun long_form_content :: "content \<Rightarrow> bool" where
  "long_form_content (Template_Art t_name i) = (contains ''Long'' t_name)"
| "long_form_content (Overlay_Text data is_short) = (\<not> is_short)"

text \<open>
  The archive entries of one category in Option 2: the inner loop over the formats.
\<close>

definition category_entries ::
  "template_files \<Rightarrow> contest_context \<Rightarrow> competitor list \<Rightarrow> string list \<Rightarrow> judge list \<Rightarrow>
   py_error + (string \<times> file_content) list" where
  "category_entries files ctx competitor_list formats cat_judges =
     concat_results
       (map (\<lambda>t_name.
               case files (template_path t_name) of
                 None \<Rightarrow> Inr []
               | Some sizes \<Rightarrow>
                   (case category_template_pages sizes t_name ctx competitor_list cat_judges of
                      Inl e \<Rightarrow> Inl e
                    | Inr writer \<Rightarrow>
                        (if length writer > 0
                         then Inr [(safe_session ctx @ ''_'' @ replace ''.pdf'' [] t_name @ ''_''
                                      @ safe_date ctx @ ''.pdf'', Pdf writer)]
                         else Inr [])))
            formats)"

text \<open>A judge whose number is not 0.\<close>

definition nonzero :: "judge \<Rightarrow> bool" where
  "nonzero j = (Number j \<noteq> Some 0)"

text \<open>The name of the file that an outcome offers for download.\<close>

definition download_name :: "outcome \<Rightarrow> string option" where
  "download_name out = (case out of Download fname data \<Rightarrow> Some fname | _ \<Rightarrow> None)"

section \<open>Notions used in the proofs about the numbering\<close>

text \<open>A mask that does not read the \<open>Number\<close> column, and two masks that select no common row.\<close>

definition num_free :: "(judge \<Rightarrow> bool) \<Rightarrow> bool" where
  "num_free m = (\<forall>r x. m (r\<lparr>Number := x\<rparr>) = m r)"

definition disjoint_masks :: "(judge \<Rightarrow> bool) \<Rightarrow> (judge \<Rightarrow> bool) \<Rightarrow> bool" where
  "disjoint_masks m m' = (\<forall>r. \<not> (m r \<and> m' r))"

text \<open>The Official judges of the three recognised categories.\<close>

definition is_numbered_official :: "judge \<Rightarrow> bool" where
  "is_numbered_official r = (\<exists>cat \<in> set categories. is_official cat r)"

text \<open>
  The numbering loop as a list of assignments \<open>(mask, start)\<close> applied from the left,
  and the condition under which such a list can be reordered: no mask reads the numbers
  and no two masks select a common row.
\<close>

fun apply_all :: "((judge \<Rightarrow> bool) \<times> int) list \<Rightarrow> judge list \<Rightarrow> judge list" where
  "apply_all [] rs = rs"
| "apply_all ((m, n) # ps) rs = apply_all ps (assign_range m n rs)"

fun separate :: "((judge \<Rightarrow> bool) \<times> int) list \<Rightarrow> bool" where
  "separate [] = True"
| "separate ((m, n) # ps) = (num_free m \<and> (\<forall>(m', n') \<in> set ps. disjoint_masks m m') \<and> separate ps)"

definition plan :: "judge list \<Rightarrow> ((judge \<Rightarrow> bool) \<times> int) list" where
  "plan rs =
     (let a = int (count_rows (is_official ''MUS'') rs);
          b = int (count_rows (is_official ''PER'') rs)
      in [(is_official ''MUS'', 1), (is_practice ''MUS'', 50),
          (is_official ''PER'', 1 + a), (is_practice ''PER'', 50),
          (is_official ''SNG'', 1 + a + b), (is_practice ''SNG'', 50)])"

text \<open>A row that \<open>clean_row\<close> leaves as it is.\<close>

definition is_clean :: "judge \<Rightarrow> bool" where
  "is_clean r = (clean_row r = r)"

text \<open>A row without its number.\<close>

definition drop_Number :: "judge \<Rightarrow> judge" where
  "drop_Number r = r\<lparr>Number := None\<rparr>"

section \<open>Example inputs\<close>

text \<open>
  A table as the import path builds it (no \<open>Number\<close> column): two Official judges of
  PER, one of them in lower case, one Official and one Practice judge of MUS.
\<close>

definition example_judges :: judges_df where
  "example_judges =
     \<lparr>has_Number = False,
      rows =
        [\<lparr>Number = None, Name = ''Bob Smith'', Print = True, Category = ''per'', Type = ''official''\<rparr>,
         \<lparr>Number = None, Name = ''Al Adams'', Print = True, Category = ''MUS'', Type = ''Practice''\<rparr>,
         \<lparr>Number = None, Name = ''Zed'', Print = True, Category = ''MUS'', Type = ''Official''\<rparr>,
         \<lparr>Number = None, Name = ''Carl Jones'', Print = True, Category = ''PER'', Type = ''Official''\<rparr>]\<rparr>"

text \<open>A table with a single Official judge of PER, as the import path builds it.\<close>

definition one_official :: judges_df where
  "one_official =
     \<lparr>has_Number = False,
      rows = [\<lparr>Number = None, Name = ''Bob Smith'', Print = True, Category = ''PER'',
               Type = ''Official''\<rparr>]\<rparr>"

text \<open>A table whose single row has white space around its category and type.\<close>

definition padded_judges :: judges_df where
  "padded_judges =
     \<lparr>has_Number = True,
      rows = [\<lparr>Number = Some 7, Name = ''Ann Lee'', Print = True, Category = '' mus'',
               Type = ''official ''\<rparr>]\<rparr>"

text \<open>A page of letter size with the artwork of a template, and nothing else.\<close>

definition letter_template_page :: page where
  "letter_template_page = template_page ''MUS_Long.pdf'' 0 (612, 792)"

text \<open>
  The end-to-end scenario: district Example, session Quartet Semi-Finals, the first
  of May 2024; one judge of MUS with number 1 and print flag true, of any name and
  type; one competitor, number 10, Test Quartet, print flag true; and a template
  directory that holds the MUS long template only, with a single page.
\<close>

definition scenario_context :: contest_context where
  "scenario_context =
     contest_context_of ''Example'' \<lparr>year = 2024, month = 5, day = 1\<rparr> ''Quartet Semi-Finals''"

definition scenario_judge :: "string \<Rightarrow> string \<Rightarrow> judge" where
  "scenario_judge name ty =
     \<lparr>Number = Some 1, Name = name, Print = True, Category = ''MUS'', Type = ty\<rparr>"

definition scenario_competitor :: "string \<Rightarrow> competitor" where
  "scenario_competitor dir =
     \<lparr>Number = Some 10, Name = ''Test Quartet'', Print = True, Director = dir\<rparr>"

definition scenario_files :: "real \<times> real \<Rightarrow> template_files" where
  "scenario_files box =
     (\<lambda>path. if path = ''templates/MUS_Long.pdf'' then Some [box] else None)"

text \<open>A judge with number 0 and print flag true.\<close>

definition zero_judge :: judge where
  "zero_judge =
     \<lparr>Number = Some 0, Name = ''Pat Doe'', Print = True, Category = ''SNG'',
      Type = ''Official''\<rparr>"

text \<open>
  Three competitors, and a template directory with both MUS templates, one page each.
\<close>

definition three_competitors :: "competitor list" where
  "three_competitors =
     [\<lparr>Number = Some 1, Name = ''Alpha'', Print = True, Director = ''''\<rparr>,
      \<lparr>Number = Some 2, Name = ''Beta'', Print = True, Director = ''''\<rparr>,
      \<lparr>Number = Some 3, Name = ''Gamma'', Print = True, Director = ''''\<rparr>]"

definition both_templates :: template_files where
  "both_templates =
     (\<lambda>path. if path = ''templates/MUS_Long.pdf'' \<or> path = ''templates/MUS_Short.pdf''
             then Some [(612, 792)] else None)"

section \<open>Properties of the string functions\<close>

lemma space_not_alpha: "is_space c \<Longrightarrow> \<not> is_alpha c"
  by (auto simp: is_space_def is_alpha_def is_lower_def is_upper_def Let_def)

lemma is_space_upper_char [simp]: "is_space (upper_char c) = is_space c"
  by (auto simp: is_space_def upper_char_def is_lower_def Let_def)

lemma is_space_lower_char [simp]: "is_space (lower_char c) = is_space c"
  by (auto simp: is_space_def lower_char_def is_upper_def Let_def)

lemma is_alpha_upper_char [simp]: "is_alpha (upper_char c) = is_alpha c"
  by (auto simp: is_alpha_def upper_char_def is_lower_def is_upper_def Let_def)

lemma is_alpha_lower_char [simp]: "is_alpha (lower_char c) = is_alpha c"
  by (auto simp: is_alpha_def lower_char_def is_lower_def is_upper_def Let_def)

lemma upper_char_idem [simp]: "upper_char (upper_char c) = upper_char c"
  by (auto simp: upper_char_def is_lower_def Let_def)

lemma lower_char_idem [simp]: "lower_char (lower_char c) = lower_char c"
  by (auto simp: lower_char_def is_upper_def Let_def)

lemma upper_idem: "upper (upper s) = upper s"
  by (simp add: upper_def)

lemma rstrip_Cons:
  "rstrip (x # xs) = (if \<forall>c \<in> set (x # xs). is_space c then [] else x # rstrip xs)"
  by (auto simp: rstrip_def dropWhile_append)

lemma lstrip_upper: "lstrip (upper s) = upper (lstrip s)"
  by (simp add: lstrip_def upper_def dropWhile_map comp_def)

lemma rstrip_upper: "rstrip (upper s) = upper (rstrip s)"
  by (simp add: rstrip_def upper_def dropWhile_map comp_def rev_map)

lemma strip_upper: "strip (upper s) = upper (strip s)"
  by (simp add: strip_def lstrip_upper rstrip_upper)

lemma rstrip_idem: "rstrip (rstrip s) = rstrip s"
  by (simp add: rstrip_def)

lemma lstrip_rstrip_lstrip: "lstrip (rstrip (lstrip s)) = rstrip (lstrip s)"
proof (cases "lstrip s")
  case Nil
  then have "rstrip (lstrip s) = []" by (simp add: rstrip_def)
  then show ?thesis by (simp add: lstrip_def)
next
  case (Cons x xs)
  then have "\<not> is_space x"
    unfolding lstrip_def by (metis hd_dropWhile list.sel(1) list.distinct(1))
  then show ?thesis using Cons by (simp add: rstrip_Cons) (simp add: lstrip_def)
qed

lemma strip_idem: "strip (strip s) = strip s"
  by (simp add: strip_def lstrip_rstrip_lstrip rstrip_idem)

lemma title_from_idem: "title_from p (title_from p s) = title_from p s"
  by (induction s arbitrary: p) auto

lemma lstrip_title: "lstrip (title_from False s) = title_from False (lstrip s)"
  by (induction s) (auto simp: lstrip_def space_not_alpha)

lemma all_space_title_from:
  "(\<forall>c \<in> set (title_from p s). is_space c) = (\<forall>c \<in> set s. is_space c)"
  by (induction s arbitrary: p) auto

lemma rstrip_title: "rstrip (title_from p s) = title_from p (rstrip s)"
proof (induction s arbitrary: p)
  case Nil
  then show ?case by (simp add: rstrip_def)
next
  case (Cons c cs)
  have "(\<forall>x \<in> set (title_from p (c # cs)). is_space x) = (\<forall>x \<in> set (c # cs). is_space x)"
    by (rule all_space_title_from)
  then show ?case using Cons.IH [of "is_alpha c"]
    by (simp add: rstrip_Cons)
qed

lemma strip_title: "strip (title s) = title (strip s)"
  by (simp add: strip_def title_def lstrip_title rstrip_title)

lemma clean_category_idem: "strip (upper (strip (upper s))) = strip (upper s)"
  by (simp add: strip_upper upper_idem strip_idem)

lemma clean_type_idem: "strip (title (strip (title s))) = strip (title s)"
  by (simp add: strip_title strip_idem) (simp add: title_def title_from_idem)

lemma clean_row_idem: "clean_row (clean_row r) = clean_row r"
  by (simp add: clean_row_def clean_category_idem clean_type_idem)

text \<open>The last word of a stripped name exists.\<close>

lemma split_from_not_empty:
  "w \<noteq> [] \<or> (\<exists>c \<in> set s. \<not> is_space c) \<Longrightarrow> split_from w s \<noteq> []"
  by (induction s arbitrary: w) auto

lemma strip_has_word_character:
  assumes "strip s \<noteq> []"
  shows "\<not> is_space (hd (strip s))"
proof -
  have "dropWhile is_space (strip s) = strip s"
    using lstrip_rstrip_lstrip [of s] by (simp add: strip_def lstrip_def)
  with assms show ?thesis by (metis hd_dropWhile)
qed

lemma split_strip_not_empty: "strip s \<noteq> [] \<Longrightarrow> split (strip s) \<noteq> []"
proof -
  assume ne: "strip s \<noteq> []"
  then have "\<not> is_space (hd (strip s))" by (rule strip_has_word_character)
  moreover from ne have "hd (strip s) \<in> set (strip s)" by simp
  ultimately show ?thesis
    unfolding split_def by (intro split_from_not_empty) blast
qed

lemma replace_single:
  "replace [a] new s = concat (map (\<lambda>c. if c = a then new else [c]) s)"
  by (induction s) auto

lemma escape_rtf_concat_map: "escape_rtf (Some s) = concat (map escape_char s)"
  by (induction s) (auto simp: escape_rtf_def replace_single escape_char_def backslash_def)

text \<open>
  C8. For every string, \<open>escape_rtf\<close> is the concatenation of the escapes of its
  characters, one by one: a backslash becomes two backslashes, an opening brace becomes
  a backslash and the brace, a closing brace becomes a backslash and the brace, and
  every other character stays as it is. The backslashes that the brace escapes insert
  are not escaped again.
\<close>

theorem escape_rtf_each_character_once:
  "escape_rtf (Some s) =
     concat (map (\<lambda>c. if c = backslash then [backslash, backslash]
                       else if c = CHR ''{'' then [backslash, CHR ''{'']
                       else if c = CHR ''}'' then [backslash, CHR ''}'']
                       else [c]) s)"
  using escape_rtf_concat_map [of s] by (simp add: escape_char_def [abs_def])

theorem escape_rtf_each_character_once_witness:
  "escape_rtf (Some (''a{b}'' @ [backslash] @ ''c''))
     = ''a'' @ [backslash] @ ''{b'' @ [backslash] @ ''}'' @ [backslash, backslash] @ ''c''"
  using escape_rtf_each_character_once [of "''a{b}'' @ [backslash] @ ''c''"]
  by (simp add: backslash_def)

section \<open>Properties of the numbering\<close>

lemma assign_range_length [simp]: "length (assign_range m n rs) = length rs"
  by (induction rs arbitrary: n) auto

lemma num_free_official [simp]: "num_free (is_official cat)"
  by (simp add: num_free_def is_official_def)

lemma num_free_practice [simp]: "num_free (is_practice cat)"
  by (simp add: num_free_def is_practice_def)

lemma count_rows_assign_range [simp]:
  "num_free m' \<Longrightarrow> count_rows m' (assign_range m n rs) = count_rows m' rs"
  by (induction rs arbitrary: n) (auto simp: num_free_def count_rows_def)

lemma filter_assign_range_other:
  "num_free m' \<Longrightarrow> disjoint_masks m m' \<Longrightarrow> filter m' (assign_range m n rs) = filter m' rs"
  by (induction rs arbitrary: n) (auto simp: num_free_def disjoint_masks_def)

lemma numbers_assign_range:
  "num_free m \<Longrightarrow>
   map Number (filter m (assign_range m n rs)) = map Some [n .. n + int (count_rows m rs) - 1]"
proof (induction rs arbitrary: n)
  case Nil
  then show ?case by (simp add: count_rows_def)
next
  case (Cons r rs)
  show ?case
  proof (cases "m r")
    case True
    have "[n .. n + int (count_rows m (r # rs)) - 1] = n # [n + 1 .. n + 1 + int (count_rows m rs) - 1]"
      using True by (subst upto_rec1) (auto simp: count_rows_def)
    then show ?thesis using True Cons.prems Cons.IH [OF Cons.prems, of "n + 1"]
      by (simp add: num_free_def)
  next
    case False
    then show ?thesis using Cons.prems Cons.IH [OF Cons.prems, of n]
      by (simp add: count_rows_def)
  qed
qed

lemma assign_range_none: "count_rows m rs = 0 \<Longrightarrow> assign_range m n rs = rs"
  by (induction rs arbitrary: n) (auto simp: count_rows_def split: if_splits)

lemma number_category_eq:
  "number_category cat (cur, rs) =
     (cur + int (count_rows (is_official cat) rs),
      assign_range (is_practice cat) 50 (assign_range (is_official cat) cur rs))"
  by (auto simp: number_category_def Let_def assign_range_none)

lemma number_all_eq:
  "number_all rs =
     (let a = int (count_rows (is_official ''MUS'') rs);
          b = int (count_rows (is_official ''PER'') rs)
      in assign_range (is_practice ''SNG'') 50 (assign_range (is_official ''SNG'') (1 + a + b)
        (assign_range (is_practice ''PER'') 50 (assign_range (is_official ''PER'') (1 + a)
          (assign_range (is_practice ''MUS'') 50 (assign_range (is_official ''MUS'') 1 rs))))))"
  by (simp add: number_all_def categories_def number_category_eq Let_def add.assoc)


lemma disjoint_official_practice [simp]:
  "disjoint_masks (is_official c) (is_practice c')"
  "disjoint_masks (is_practice c) (is_official c')"
  by (auto simp: disjoint_masks_def is_official_def is_practice_def)

lemma disjoint_categories [simp]:
  "c \<noteq> c' \<Longrightarrow> disjoint_masks (is_official c) (is_official c')"
  "c \<noteq> c' \<Longrightarrow> disjoint_masks (is_practice c) (is_practice c')"
  by (auto simp: disjoint_masks_def is_official_def is_practice_def)

lemma upto_append_next: "i \<le> j + 1 \<Longrightarrow> j \<le> k \<Longrightarrow> [i .. j] @ [j + 1 .. k] = [i .. k]"
proof (cases "i \<le> j")
  case True
  assume "j \<le> k"
  with True show ?thesis using upto_split2 [of i j k] by simp
next
  case False
  assume "i \<le> j + 1"
  with False have "i = j + 1" by simp
  then show ?thesis by simp
qed

lemma upto_append3:
  "[1 .. int a] @ [1 + int a .. int a + int b] @ [1 + int a + int b .. int a + int b + int c]
     = [1 .. int a + int b + int c]"
proof -
  have "[1 + int a .. int a + int b] @ [1 + int a + int b .. int a + int b + int c]
      = [1 + int a .. int a + int b + int c]"
    using upto_append_next [of "1 + int a" "int a + int b" "int a + int b + int c"]
    by (simp add: ac_simps)
  then show ?thesis
    using upto_append_next [of 1 "int a" "int a + int b + int c"] by (simp add: ac_simps)
qed

lemma official_numbers:
  "map Number (filter (is_official ''MUS'') (number_all rs)) = map Some [1 .. int (count_rows (is_official ''MUS'') rs)]"
  "map Number (filter (is_official ''PER'') (number_all rs)) =
     map Some [1 + int (count_rows (is_official ''MUS'') rs) ..
               int (count_rows (is_official ''MUS'') rs) + int (count_rows (is_official ''PER'') rs)]"
  "map Number (filter (is_official ''SNG'') (number_all rs)) =
     map Some [1 + int (count_rows (is_official ''MUS'') rs) + int (count_rows (is_official ''PER'') rs) ..
               int (count_rows (is_official ''MUS'') rs) + int (count_rows (is_official ''PER'') rs)
                 + int (count_rows (is_official ''SNG'') rs)]"
  by (simp_all add: number_all_eq Let_def filter_assign_range_other numbers_assign_range ac_simps)

lemma practice_numbers:
  "cat \<in> set categories \<Longrightarrow>
   map Number (filter (is_practice cat) (number_all rs)) = map Some [50 .. 49 + int (count_rows (is_practice cat) rs)]"
  by (auto simp: categories_def number_all_eq Let_def filter_assign_range_other numbers_assign_range)

lemma count_rows_number_all [simp]:
  "num_free m \<Longrightarrow> count_rows m (number_all rs) = count_rows m rs"
  by (simp add: number_all_eq Let_def)

lemma count_numbered_official:
  "count_rows is_numbered_official rs =
     count_rows (is_official ''MUS'') rs + count_rows (is_official ''PER'') rs
       + count_rows (is_official ''SNG'') rs"
  by (induction rs) (auto simp: count_rows_def is_numbered_official_def categories_def is_official_def)

lemma num_free_numbered_official [simp]: "num_free is_numbered_official"
  by (simp add: num_free_def is_numbered_official_def is_official_def)

text \<open>The example table, evaluated.\<close>

lemma calculate_numbers_example:
  "calculate_numbers example_judges =
     \<lparr>has_Number = True,
      rows =
        [\<lparr>Number = Some 1, Name = ''Zed'', Print = True, Category = ''MUS'', Type = ''Official''\<rparr>,
         \<lparr>Number = Some 50, Name = ''Al Adams'', Print = True, Category = ''MUS'', Type = ''Practice''\<rparr>,
         \<lparr>Number = Some 2, Name = ''Carl Jones'', Print = True, Category = ''PER'', Type = ''Official''\<rparr>,
         \<lparr>Number = Some 3, Name = ''Bob Smith'', Print = True, Category = ''PER'', Type = ''Official''\<rparr>]\<rparr>"
  by code_simp

section \<open>Reordering the assignments\<close>

lemma assign_range_commute:
  "num_free m \<Longrightarrow> num_free m' \<Longrightarrow> disjoint_masks m m' \<Longrightarrow>
   assign_range m n (assign_range m' n' rs) = assign_range m' n' (assign_range m n rs)"
  by (induction rs arbitrary: n n') (auto simp: num_free_def disjoint_masks_def)

lemma assign_range_absorb:
  "num_free m \<Longrightarrow> assign_range m n (assign_range m n' rs) = assign_range m n rs"
  by (induction rs arbitrary: n n') (auto simp: num_free_def)

lemma assign_range_apply_all:
  "num_free m \<Longrightarrow> separate ps \<Longrightarrow> \<forall>(m', n') \<in> set ps. disjoint_masks m m' \<Longrightarrow>
   assign_range m n (apply_all ps rs) = apply_all ps (assign_range m n rs)"
proof (induction ps arbitrary: rs)
  case Nil
  then show ?case by simp
next
  case (Cons p ps)
  obtain m' n' where p: "p = (m', n')" by (cases p)
  from Cons.prems p have nf: "num_free m'" and dj: "disjoint_masks m m'"
    and sep: "separate ps" and rest: "\<forall>(m', n') \<in> set ps. disjoint_masks m m'"
    by auto
  have "assign_range m n (apply_all (p # ps) rs) = assign_range m n (apply_all ps (assign_range m' n' rs))"
    by (simp add: p)
  also have "\<dots> = apply_all ps (assign_range m n (assign_range m' n' rs))"
    by (rule Cons.IH [OF Cons.prems(1) sep rest])
  also have "\<dots> = apply_all ps (assign_range m' n' (assign_range m n rs))"
    by (simp add: assign_range_commute [OF Cons.prems(1) nf dj])
  finally show ?case by (simp add: p)
qed

lemma apply_all_idem: "separate ps \<Longrightarrow> apply_all ps (apply_all ps rs) = apply_all ps rs"
proof (induction ps arbitrary: rs)
  case Nil
  then show ?case by simp
next
  case (Cons p ps)
  obtain m n where p: "p = (m, n)" by (cases p)
  from Cons.prems p have nf: "num_free m" and sep: "separate ps"
    and rest: "\<forall>(m', n') \<in> set ps. disjoint_masks m m'"
    by auto
  have "apply_all (p # ps) (apply_all (p # ps) rs)
      = apply_all ps (assign_range m n (apply_all ps (assign_range m n rs)))"
    by (simp add: p)
  also have "\<dots> = apply_all ps (apply_all ps (assign_range m n (assign_range m n rs)))"
    by (simp add: assign_range_apply_all [OF nf sep rest])
  also have "\<dots> = apply_all ps (apply_all ps (assign_range m n rs))"
    by (simp add: assign_range_absorb [OF nf])
  also have "\<dots> = apply_all ps (assign_range m n rs)"
    by (rule Cons.IH [OF sep])
  finally show ?case by (simp add: p)
qed

lemma number_all_plan: "number_all rs = apply_all (plan rs) rs"
  by (simp add: number_all_eq plan_def Let_def)

lemma plan_number_all: "plan (number_all rs) = plan rs"
  by (simp add: plan_def)

lemma separate_plan: "separate (plan rs)"
  by (simp add: plan_def Let_def)

lemma number_all_idem: "number_all (number_all rs) = number_all rs"
proof -
  have "number_all (number_all rs) = apply_all (plan rs) (number_all rs)"
    by (simp add: number_all_plan [of "number_all rs"] plan_number_all)
  also have "\<dots> = apply_all (plan rs) (apply_all (plan rs) rs)"
    by (simp add: number_all_plan [of rs])
  also have "\<dots> = apply_all (plan rs) rs"
    by (rule apply_all_idem [OF separate_plan])
  finally show ?thesis by (simp add: number_all_plan [of rs])
qed

section \<open>Sorting, cleaning and the frame of \<open>calculate_numbers\<close>\<close>

lemma map_assign_range:
  "(\<And>r x. f (r\<lparr>Number := x\<rparr>) = f r) \<Longrightarrow> map f (assign_range m n rs) = map f rs"
  by (induction rs arbitrary: n) auto

lemma map_number_all:
  "(\<And>r x. f (r\<lparr>Number := x\<rparr>) = f r) \<Longrightarrow> map f (number_all rs) = map f rs"
  by (simp add: number_all_eq Let_def map_assign_range)

lemma length_number_all [simp]: "length (number_all rs) = length rs"
  by (simp add: number_all_eq Let_def)

lemma sort_columns_Number [simp]: "sort_columns (r\<lparr>Number := x\<rparr>) = sort_columns r"
  by (simp add: sort_columns_def Sort_Cat_def Sort_Type_def Sort_Last_Name_def)

lemma is_clean_Number [simp]: "is_clean (r\<lparr>Number := x\<rparr>) = is_clean r"
  by (cases r) (simp add: is_clean_def clean_row_def)

lemma map_clean_row_id: "map is_clean rs = map (\<lambda>r. True) rs \<Longrightarrow> map clean_row rs = rs"
  by (induction rs) (auto simp: is_clean_def)

lemma with_number_rows:
  "rows (calculate_numbers df) =
     number_all (if has_Number df then sort_values (map clean_row (rows df))
                 else map (\<lambda>r. r\<lparr>Number := Some 0\<rparr>) (sort_values (map clean_row (rows df))))"
  by (simp add: calculate_numbers_def Let_def)

lemma is_clean_sorted: "map is_clean (sort_values (map clean_row rs)) = map (\<lambda>r. True) (sort_values (map clean_row rs))"
proof -
  have "\<forall>r \<in> set (sort_values (map clean_row rs)). is_clean r"
    by (auto simp: sort_values_def is_clean_def clean_row_idem)
  then show ?thesis by simp
qed

lemma rows_calculate_numbers_clean:
  "map clean_row (rows (calculate_numbers df)) = rows (calculate_numbers df)"
proof (rule map_clean_row_id)
  let ?srt = "sort_values (map clean_row (rows df))"
  have "map is_clean (rows (calculate_numbers df)) = map is_clean ?srt"
    by (simp add: with_number_rows map_number_all comp_def)
  also have "\<dots> = map (\<lambda>r. True) ?srt" by (rule is_clean_sorted)
  finally show "map is_clean (rows (calculate_numbers df)) = map (\<lambda>r. True) (rows (calculate_numbers df))"
    by (simp add: with_number_rows map_replicate_const sort_values_def)
qed

lemma rows_calculate_numbers_sorted:
  "sorted (map sort_columns (rows (calculate_numbers df)))"
proof -
  let ?srt = "sort_values (map clean_row (rows df))"
  have "map sort_columns (rows (calculate_numbers df)) = map sort_columns ?srt"
    by (simp add: with_number_rows map_number_all comp_def)
  then show ?thesis by (simp add: sort_values_def)
qed

lemma calculate_numbers_frame:
  "mset (map (\<lambda>r. r\<lparr>Number := None\<rparr>) (rows (calculate_numbers df)))
     = mset (map (\<lambda>r. (clean_row r)\<lparr>Number := None\<rparr>) (rows df))"
proof -
  let ?srt = "sort_values (map clean_row (rows df))"
  have "map (\<lambda>r. r\<lparr>Number := None\<rparr>) (rows (calculate_numbers df)) = map (\<lambda>r. r\<lparr>Number := None\<rparr>) ?srt"
    by (simp add: with_number_rows map_number_all comp_def)
  moreover have "mset ?srt = mset (map clean_row (rows df))"
    by (simp add: sort_values_def)
  ultimately show ?thesis
    by (metis (no_types, lifting) mset_map map_map comp_def map_eq_conv)
qed

lemma drop_Number_filter_assign_range:
  "num_free P \<Longrightarrow>
   map drop_Number (filter P (assign_range m n rs)) = map drop_Number (filter P rs)"
  by (induction rs arbitrary: n) (auto simp: num_free_def drop_Number_def)

lemma drop_Number_filter_number_all:
  "num_free P \<Longrightarrow>
   map drop_Number (filter P (number_all rs)) = map drop_Number (filter P rs)"
  by (simp add: number_all_eq Let_def drop_Number_filter_assign_range)

lemma drop_Number_filter_zeroed:
  "num_free P \<Longrightarrow>
   map drop_Number (filter P (map (\<lambda>r. r\<lparr>Number := Some 0\<rparr>) rs)) = map drop_Number (filter P rs)"
  by (induction rs) (auto simp: num_free_def drop_Number_def)

lemma selected_rows_of_result:
  assumes "num_free P"
  shows "map drop_Number (filter P (rows (calculate_numbers df)))
     = map drop_Number (filter P (sort_values (map clean_row (rows df))))"
  using assms
  by (simp add: with_number_rows drop_Number_filter_number_all drop_Number_filter_zeroed)

lemma count_rows_sort_values: "count_rows P (sort_values rs) = count_rows P rs"
  by (simp add: count_rows_def sort_values_def filter_sort)

lemma count_rows_of_result:
  assumes "num_free P"
  shows "count_rows P (rows (calculate_numbers df)) = count_rows P (map clean_row (rows df))"
proof -
  have "count_rows P (rows (calculate_numbers df))
      = length (map drop_Number (filter P (rows (calculate_numbers df))))"
    by (simp add: count_rows_def)
  also have "\<dots> = length (map drop_Number (filter P (sort_values (map clean_row (rows df)))))"
    by (simp only: selected_rows_of_result [OF assms])
  also have "\<dots> = count_rows P (sort_values (map clean_row (rows df)))"
    by (simp add: count_rows_def)
  finally show ?thesis by (simp add: count_rows_sort_values)
qed

text \<open>The sorted example table and its counts, evaluated.\<close>

lemma sort_values_example:
  "map Name (filter (is_official ''PER'') (sort_values (map clean_row (rows example_judges))))
     = [''Carl Jones'', ''Bob Smith'']"
  by code_simp

lemma count_example:
  "count_rows is_numbered_official (map clean_row (rows example_judges)) = 3"
  "count_rows (is_practice ''MUS'') (map clean_row (rows example_judges)) = 1"
  by code_simp+

text \<open>
  C1. After \<open>calculate_numbers\<close>, the numbers of the Official judges of MUS, then of
  PER, then of SNG, each group in table order, are 1, 2, ..., K, where K is the number
  of Official judges of the three categories in the given table (after \<open>clean_row\<close>):
  no gap, no repeat, and no restart at a new category. The numbers of the Practice
  judges of each of the three categories, in table order, are 50, 51, ..., as many as
  the given table has Practice judges of that category, one run for every category.
  The rows that carry these numbers are the rows of the given table: without their
  numbers, the Official rows of a category in the result are the cleaned Official rows
  of that category of the given table in sorted order, the same holds for the Practice
  rows, and the result as a whole has the cleaned rows of the given table, each once.
\<close>

theorem calculate_numbers_official_run_practice_from_50:
  "map Number (filter (is_official ''MUS'') (rows (calculate_numbers df))
               @ filter (is_official ''PER'') (rows (calculate_numbers df))
               @ filter (is_official ''SNG'') (rows (calculate_numbers df)))
     = map Some [1 .. int (count_rows is_numbered_official (map clean_row (rows df)))]
   \<and> (\<forall>cat \<in> set categories.
         map Number (filter (is_practice cat) (rows (calculate_numbers df)))
           = map Some [50 .. 49 + int (count_rows (is_practice cat) (map clean_row (rows df)))]
         \<and> map drop_Number (filter (is_official cat) (rows (calculate_numbers df)))
           = map drop_Number (filter (is_official cat) (sort_values (map clean_row (rows df))))
         \<and> map drop_Number (filter (is_practice cat) (rows (calculate_numbers df)))
           = map drop_Number (filter (is_practice cat) (sort_values (map clean_row (rows df)))))
   \<and> mset (map drop_Number (rows (calculate_numbers df)))
       = mset (map drop_Number (map clean_row (rows df)))"
proof -
  obtain rs where out: "rows (calculate_numbers df) = number_all rs"
    by (simp add: calculate_numbers_def Let_def)
  let ?a = "count_rows (is_official ''MUS'') rs"
  let ?b = "count_rows (is_official ''PER'') rs"
  let ?c = "count_rows (is_official ''SNG'') rs"
  have "map Number (filter (is_official ''MUS'') (number_all rs)
                    @ filter (is_official ''PER'') (number_all rs)
                    @ filter (is_official ''SNG'') (number_all rs))
          = map Some ([1 .. int ?a] @ [1 + int ?a .. int ?a + int ?b]
                      @ [1 + int ?a + int ?b .. int ?a + int ?b + int ?c])"
    by (simp add: official_numbers)
  also have "\<dots> = map Some [1 .. int ?a + int ?b + int ?c]"
    by (simp only: upto_append3)
  also have "int ?a + int ?b + int ?c = int (count_rows is_numbered_official (number_all rs))"
    by (simp add: count_numbered_official)
  finally have "map Number (filter (is_official ''MUS'') (number_all rs)
                    @ filter (is_official ''PER'') (number_all rs)
                    @ filter (is_official ''SNG'') (number_all rs))
          = map Some [1 .. int (count_rows is_numbered_official (number_all rs))]" .
  then have official: "map Number (filter (is_official ''MUS'') (rows (calculate_numbers df))
               @ filter (is_official ''PER'') (rows (calculate_numbers df))
               @ filter (is_official ''SNG'') (rows (calculate_numbers df)))
     = map Some [1 .. int (count_rows is_numbered_official (map clean_row (rows df)))]"
    by (simp only: out [symmetric] count_rows_of_result [OF num_free_numbered_official])
  have "\<forall>cat \<in> set categories.
      map Number (filter (is_practice cat) (number_all rs))
        = map Some [50 .. 49 + int (count_rows (is_practice cat) (number_all rs))]"
    by (simp add: practice_numbers)
  then have practice: "\<forall>cat \<in> set categories.
      map Number (filter (is_practice cat) (rows (calculate_numbers df)))
        = map Some [50 .. 49 + int (count_rows (is_practice cat) (map clean_row (rows df)))]"
    by (simp only: out [symmetric] count_rows_of_result [OF num_free_practice])
  have same_rows: "map drop_Number (filter (is_official cat) (rows (calculate_numbers df)))
           = map drop_Number (filter (is_official cat) (sort_values (map clean_row (rows df))))
         \<and> map drop_Number (filter (is_practice cat) (rows (calculate_numbers df)))
           = map drop_Number (filter (is_practice cat) (sort_values (map clean_row (rows df))))"
    for cat
    by (simp add: selected_rows_of_result)
  have frame: "mset (map drop_Number (rows (calculate_numbers df)))
       = mset (map drop_Number (map clean_row (rows df)))"
    using calculate_numbers_frame [of df] by (simp add: drop_Number_def [abs_def] comp_def)
  from official practice same_rows frame show ?thesis by simp
qed

theorem calculate_numbers_official_run_practice_from_50_witness:
  "map Number (filter (is_official ''MUS'') (rows (calculate_numbers example_judges))
               @ filter (is_official ''PER'') (rows (calculate_numbers example_judges))
               @ filter (is_official ''SNG'') (rows (calculate_numbers example_judges)))
     = [Some 1, Some 2, Some 3]
   \<and> count_rows is_numbered_official (map clean_row (rows example_judges)) = 3
   \<and> ''MUS'' \<in> set categories
   \<and> map Number (filter (is_practice ''MUS'') (rows (calculate_numbers example_judges)))
       = [Some 50]
   \<and> ''PER'' \<in> set categories
   \<and> map Name (filter (is_official ''PER'') (rows (calculate_numbers example_judges)))
       = [''Carl Jones'', ''Bob Smith'']
   \<and> map Name (filter (is_official ''PER'')
                  (sort_values (map clean_row (rows example_judges))))
       = [''Carl Jones'', ''Bob Smith'']"
  using calculate_numbers_official_run_practice_from_50 [of example_judges]
  by (simp add: calculate_numbers_example count_example sort_values_example
      is_official_def is_practice_def categories_def)

text \<open>
  C4. \<open>calculate_numbers\<close> is idempotent: applied to its own result it returns the
  same table, rows in the same order with the same numbers. The rows of the result are
  in the order of the sort columns (category rank, then type rank, then last word of
  the name), and the sort is stable: the rows with one and the same key keep their
  prior order.
\<close>

theorem calculate_numbers_idempotent_stable_sort:
  "calculate_numbers (calculate_numbers df) = calculate_numbers df
   \<and> sorted (map sort_columns (rows (calculate_numbers df)))
   \<and> filter (\<lambda>r. sort_columns r = k) (sort_values rs) = filter (\<lambda>r. sort_columns r = k) rs"
proof -
  let ?out = "calculate_numbers df"
  have has: "has_Number ?out" by (simp add: calculate_numbers_def Let_def)
  have "sort_values (rows ?out) = rows ?out"
    unfolding sort_values_def by (rule sort_key_id_if_sorted) (rule rows_calculate_numbers_sorted)
  then have "rows (calculate_numbers ?out) = number_all (rows ?out)"
    using has by (simp add: with_number_rows [of ?out] rows_calculate_numbers_clean)
  also have "\<dots> = rows ?out"
    by (simp add: with_number_rows [of df] number_all_idem)
  finally have "rows (calculate_numbers ?out) = rows ?out" .
  moreover have "has_Number (calculate_numbers ?out) = has_Number ?out"
    by (simp add: calculate_numbers_def Let_def)
  ultimately have idem: "calculate_numbers ?out = ?out" by simp
  have stable: "filter (\<lambda>r. sort_columns r = k) (sort_values rs)
      = filter (\<lambda>r. sort_columns r = k) rs"
    unfolding sort_values_def by (rule sort_key_stable)
  from idem rows_calculate_numbers_sorted [of df] stable show ?thesis by simp
qed

theorem calculate_numbers_idempotent_stable_sort_witness:
  "calculate_numbers (calculate_numbers example_judges) = calculate_numbers example_judges
   \<and> map Name (rows (calculate_numbers example_judges))
       = [''Zed'', ''Al Adams'', ''Carl Jones'', ''Bob Smith'']
   \<and> map Number (rows (calculate_numbers example_judges)) = [Some 1, Some 50, Some 2, Some 3]"
  using calculate_numbers_idempotent_stable_sort [of example_judges]
  by (simp add: calculate_numbers_example)

lemma calculate_numbers_padded:
  "calculate_numbers padded_judges =
     \<lparr>has_Number = True,
      rows = [\<lparr>Number = Some 1, Name = ''Ann Lee'', Print = True, Category = ''MUS'',
               Type = ''Official''\<rparr>]\<rparr>"
  by code_simp

text \<open>
  C10 as stated: the category of every row of the result is the upper-cased category
  of the input row. It fails on a table whose only row has the category \<open>'' mus''\<close>:
  the result holds \<open>''MUS''\<close>, the upper-cased input is \<open>'' MUS''\<close>.
\<close>

theorem case_only_normalisation_counterexample:
  "map Category (rows (calculate_numbers padded_judges))
     \<noteq> map upper (map Category (rows padded_judges))"
  by code_simp

text \<open>
  C10, amended. \<open>calculate_numbers\<close> neither adds nor removes a row: without their
  numbers, the rows of the result are the rows of the input, each once (as multisets:
  up to order), with name and print flag unchanged, the category upper-cased and then
  stripped of surrounding white space, and the type title-cased and then stripped.
\<close>

theorem calculate_numbers_frame_normalised:
  "mset (map drop_Number (rows (calculate_numbers df)))
     = mset (map (\<lambda>r. drop_Number
                   (r\<lparr>Category := strip (upper (Category r)), Type := strip (title (Type r))\<rparr>))
                 (rows df))
   \<and> length (rows (calculate_numbers df)) = length (rows df)"
proof -
  have "mset (map drop_Number (rows (calculate_numbers df)))
     = mset (map (\<lambda>r. drop_Number
                   (r\<lparr>Category := strip (upper (Category r)), Type := strip (title (Type r))\<rparr>))
                 (rows df))"
    using calculate_numbers_frame [of df] by (simp add: drop_Number_def [abs_def] clean_row_def)
  moreover have "length (rows (calculate_numbers df)) = length (rows df)"
    by (simp add: with_number_rows sort_values_def)
  ultimately show ?thesis by simp
qed

theorem calculate_numbers_frame_normalised_witness:
  "map drop_Number (rows (calculate_numbers padded_judges))
     = [\<lparr>Number = None, Name = ''Ann Lee'', Print = True, Category = ''MUS'',
         Type = ''Official''\<rparr>]
   \<and> length (rows (calculate_numbers padded_judges)) = 1"
  using calculate_numbers_frame_normalised [of padded_judges]
  by (simp add: calculate_numbers_padded drop_Number_def)

section \<open>Placeholder judges\<close>

lemma numbered_official_positive:
  assumes "r \<in> set (number_all rs)" and "is_numbered_official r"
  shows "\<exists>n\<ge>1. Number r = Some n"
proof -
  from assms(2) obtain cat where cat: "cat \<in> set categories" "is_official cat r"
    by (auto simp: is_numbered_official_def)
  then have mem: "Number r \<in> set (map Number (filter (is_official cat) (number_all rs)))"
    using assms(1) by simp
  from cat(1) consider "cat = ''MUS''" | "cat = ''PER''" | "cat = ''SNG''"
    by (auto simp: categories_def)
  then show ?thesis
  proof cases
    case 1
    with mem show ?thesis by (simp only: official_numbers) auto
  next
    case 2
    with mem show ?thesis by (simp only: official_numbers) auto
  next
    case 3
    with mem show ?thesis by (simp only: official_numbers) auto
  qed
qed

lemma absent_judge_clean: "cat \<in> set categories \<Longrightarrow> clean_row (absent_judge cat) = absent_judge cat"
  by (auto simp: categories_def clean_row_def absent_judge_def) code_simp+

lemma new_rows_absent: "p \<in> set (new_rows rs) \<Longrightarrow> \<exists>cat \<in> set categories. p = absent_judge cat"
  by (auto simp: new_rows_def Let_def)

lemma new_rows_empty: "max_official_count rs = 0 \<Longrightarrow> new_rows rs = []"
  by (simp add: new_rows_def Let_def)


lemma balance_rows_drop:
  "drop (length (rows df)) (rows (balance_and_sort_judges df)) = new_rows (rows df)"
  by (auto simp: balance_and_sort_judges_def new_rows_empty)

lemma new_rows_fields:
  "p \<in> set (new_rows rs) \<Longrightarrow>
   Number p = Some 0 \<and> Print p = False \<and> Type p = ''Official''
   \<and> (\<exists>cat \<in> set categories. Name p = ''Absent '' @ cat @ '' Judge'' \<and> Category p = cat)"
  by (auto dest!: new_rows_absent simp: absent_judge_def)

lemma new_rows_clean: "map clean_row (new_rows rs) = new_rows rs"
  by (rule map_idI) (auto dest!: new_rows_absent simp: absent_judge_clean)

lemma placeholders_kept:
  "mset (map drop_Number (new_rows (rows df)))
     \<subseteq># mset (map drop_Number (rows (calculate_numbers (balance_and_sort_judges df))))"
proof -
  let ?b = "balance_and_sort_judges df"
  have "mset (map drop_Number (rows (calculate_numbers ?b)))
      = mset (map drop_Number (map clean_row (rows ?b)))"
    using calculate_numbers_frame [of ?b] by (simp add: drop_Number_def [abs_def] comp_def)
  also have "rows ?b = take (length (rows df)) (rows ?b) @ new_rows (rows df)"
    using balance_rows_drop [of df] by (metis append_take_drop_id)
  finally have "mset (map drop_Number (rows (calculate_numbers ?b)))
      = mset (map drop_Number (map clean_row (take (length (rows df)) (rows ?b))))
        + mset (map drop_Number (new_rows (rows df)))"
    by (simp add: new_rows_clean)
  then show ?thesis by simp
qed

lemma placeholders_renumbered:
  assumes "r \<in> set (rows (calculate_numbers (balance_and_sort_judges df)))"
    and "p \<in> set (new_rows (rows df))" and "drop_Number r = drop_Number p"
  shows "Print r = False \<and> (\<exists>n\<ge>1. Number r = Some n)"
proof -
  from assms(2) obtain cat where cat: "cat \<in> set categories" "p = absent_judge cat"
    by (auto dest: new_rows_absent)
  from assms(3) have same: "Print r = Print p" "Category r = Category p" "Type r = Type p"
    by (cases r; cases p; simp add: drop_Number_def)+
  with cat have "is_numbered_official r"
    by (auto simp: is_numbered_official_def is_official_def absent_judge_def)
  moreover from assms(1) obtain rs where "r \<in> set (number_all rs)"
    by (auto simp: with_number_rows split: if_splits)
  ultimately have "\<exists>n\<ge>1. Number r = Some n" by (rule numbered_official_positive [rotated])
  with same cat show ?thesis by (simp add: absent_judge_def)
qed

lemma pipeline_one_official:
  "rows (calculate_numbers (balance_and_sort_judges one_official)) =
     [\<lparr>Number = Some 1, Name = ''Absent MUS Judge'', Print = False, Category = ''MUS'', Type = ''Official''\<rparr>,
      \<lparr>Number = Some 2, Name = ''Bob Smith'', Print = True, Category = ''PER'', Type = ''Official''\<rparr>,
      \<lparr>Number = Some 3, Name = ''Absent SNG Judge'', Print = False, Category = ''SNG'', Type = ''Official''\<rparr>]"
  by code_simp

lemma new_rows_one_official:
  "new_rows (rows one_official) =
     [\<lparr>Number = Some 0, Name = ''Absent MUS Judge'', Print = False, Category = ''MUS'', Type = ''Official''\<rparr>,
      \<lparr>Number = Some 0, Name = ''Absent SNG Judge'', Print = False, Category = ''SNG'', Type = ''Official''\<rparr>]"
  by code_simp

text \<open>
  C2 as stated: after \<open>calculate_numbers\<close> on the balanced table every placeholder
  row still has number 0. It fails on the table with one Official judge of PER:
  balancing adds the placeholders of MUS and SNG with number 0, and the numbering gives
  them 1 and 3, since they are Official rows of their categories.
\<close>

theorem placeholder_number_after_numbering_counterexample:
  "new_rows (rows one_official) =
     [\<lparr>Number = Some 0, Name = ''Absent MUS Judge'', Print = False, Category = ''MUS'', Type = ''Official''\<rparr>,
      \<lparr>Number = Some 0, Name = ''Absent SNG Judge'', Print = False, Category = ''SNG'', Type = ''Official''\<rparr>]
   \<and> map Number (rows (calculate_numbers (balance_and_sort_judges one_official)))
       = [Some 1, Some 2, Some 3]
   \<and> map Name (rows (calculate_numbers (balance_and_sort_judges one_official)))
       = [''Absent MUS Judge'', ''Bob Smith'', ''Absent SNG Judge'']"
  by (simp add: pipeline_one_official new_rows_one_official)

text \<open>
  C2, amended. Every placeholder that \<open>balance_and_sort_judges\<close> creates is a row
  named Absent CAT Judge of type Official with number 0 and print flag false, appended
  after the rows of the table. After \<open>calculate_numbers\<close> on the balanced table the
  placeholders are still there and still have print flag false, but every row that
  agrees with a placeholder in all fields other than the number has a number of at
  least 1: the numbering rewrites it as it does for every Official row.
\<close>

theorem placeholders_zero_at_creation_renumbered_after:
  "(\<forall>p \<in> set (new_rows (rows df)).
      Number p = Some 0 \<and> Print p = False \<and> Type p = ''Official''
      \<and> (\<exists>cat \<in> set categories. Name p = ''Absent '' @ cat @ '' Judge'' \<and> Category p = cat))
   \<and> drop (length (rows df)) (rows (balance_and_sort_judges df)) = new_rows (rows df)
   \<and> mset (map drop_Number (new_rows (rows df)))
       \<subseteq># mset (map drop_Number (rows (calculate_numbers (balance_and_sort_judges df))))
   \<and> (\<forall>r \<in> set (rows (calculate_numbers (balance_and_sort_judges df))).
        \<forall>p \<in> set (new_rows (rows df)).
          drop_Number r = drop_Number p \<longrightarrow> Print r = False \<and> (\<exists>n\<ge>1. Number r = Some n))"
  using new_rows_fields [of _ "rows df"] balance_rows_drop [of df] placeholders_kept [of df]
    placeholders_renumbered [of _ df]
  by blast

theorem placeholders_zero_at_creation_renumbered_after_witness:
  "absent_judge ''MUS'' \<in> set (new_rows (rows one_official))
   \<and> Number (absent_judge ''MUS'') = Some 0 \<and> Print (absent_judge ''MUS'') = False
   \<and> (absent_judge ''MUS'')\<lparr>Number := Some 1\<rparr>
       \<in> set (rows (calculate_numbers (balance_and_sort_judges one_official)))
   \<and> drop_Number ((absent_judge ''MUS'')\<lparr>Number := Some 1\<rparr>) = drop_Number (absent_judge ''MUS'')
   \<and> Print ((absent_judge ''MUS'')\<lparr>Number := Some 1\<rparr>) = False
   \<and> (1::int) \<le> 1"
  using placeholders_zero_at_creation_renumbered_after [of one_official]
  by (simp add: pipeline_one_official new_rows_one_official absent_judge_def drop_Number_def)

section \<open>The margin\<close>

lemma apply_margin_to_page_eq:
  assumes "mediabox_width p \<noteq> 0" "mediabox_height p \<noteq> 0"
  shows "apply_margin_to_page margin_inch p =
     Inr (add_transformation
            (margin_transformation (mediabox_width p) (mediabox_height p) (margin_inch * 72)) p)"
  using assms
  by (simp add: apply_margin_to_page_def Let_def margin_transformation_def margin_scale_def)

lemma margin_scale_bounds:
  assumes "0 < w" "0 < h" "2 * m < min w h"
  shows "0 < margin_scale w h m" "w * margin_scale w h m \<le> w - 2 * m"
    "h * margin_scale w h m \<le> h - 2 * m"
proof -
  let ?s = "margin_scale w h m"
  from assms have "0 < (w - 2 * m) / w" "0 < (h - 2 * m) / h" by simp_all
  then show "0 < ?s" by (simp add: margin_scale_def)
  have "?s \<le> (w - 2 * m) / w" by (simp add: margin_scale_def)
  with \<open>0 < w\<close> show "w * ?s \<le> w - 2 * m" by (simp add: pos_le_divide_eq mult.commute)
  have "?s \<le> (h - 2 * m) / h" by (simp add: margin_scale_def)
  with \<open>0 < h\<close> show "h * ?s \<le> h - 2 * m" by (simp add: pos_le_divide_eq mult.commute)
qed

lemma centred_lower:
  fixes a b w m :: real
  shows "a \<le> w - 2 * m \<Longrightarrow> 0 \<le> b \<Longrightarrow> m \<le> b + (w - a) / 2"
  by (simp add: field_simps)

lemma centred_upper:
  fixes a b w m :: real
  shows "a \<le> w - 2 * m \<Longrightarrow> b \<le> a \<Longrightarrow> b + (w - a) / 2 \<le> w - m"
  by (simp add: field_simps)

lemma scaled_coordinate_in_margin:
  fixes w s m x :: real
  assumes "0 < s" "w * s \<le> w - 2 * m" "0 \<le> x" "x \<le> w"
  shows "m \<le> s * x + (w - w * s) / 2" "s * x + (w - w * s) / 2 \<le> w - m"
proof -
  from assms have "0 \<le> s * x" by simp
  with assms(2) show "m \<le> s * x + (w - w * s) / 2" by (rule centred_lower)
  from assms have "s * x \<le> w * s" by (simp add: mult.commute [of w s])
  with assms(2) show "s * x + (w - w * s) / 2 \<le> w - m" by (rule centred_upper)
qed

lemma transform_margin:
  "transform (margin_transformation w h m) (x, y) =
     (margin_scale w h m * x + (w - w * margin_scale w h m) / 2,
      margin_scale w h m * y + (h - h * margin_scale w h m) / 2)"
  by (simp add: transform_def margin_transformation_def)

text \<open>
  C6. For a page of positive width \<open>w\<close> and height \<open>h\<close> and a margin of
  \<open>m = 72 * margin_inch\<close> points with \<open>2m < min w h\<close>, \<open>apply_margin_to_page\<close> returns
  a page (it does not raise) with the same media box, whose content has received the
  uniform scale \<open>min ((w - 2m) / w) ((h - 2m) / h)\<close> followed by the centring
  translation; that transformation maps every point of \<open>[0, w] \<times> [0, h]\<close> to a point
  at least \<open>m\<close> from every edge of the page. Coordinates are real numbers.
\<close>

theorem apply_margin_to_page_within_margin:
  assumes "0 < mediabox_width p" and "0 < mediabox_height p"
    and "2 * (margin_inch * 72) < min (mediabox_width p) (mediabox_height p)"
  shows "\<exists>q. apply_margin_to_page margin_inch p = Inr q
           \<and> mediabox_width q = mediabox_width p \<and> mediabox_height q = mediabox_height p
           \<and> q = add_transformation
                   (margin_transformation (mediabox_width p) (mediabox_height p) (margin_inch * 72)) p
           \<and> (\<forall>x y. 0 \<le> x \<and> x \<le> mediabox_width p \<and> 0 \<le> y \<and> y \<le> mediabox_height p \<longrightarrow>
                 margin_inch * 72
                   \<le> fst (transform (margin_transformation (mediabox_width p) (mediabox_height p)
                                       (margin_inch * 72)) (x, y))
                 \<and> fst (transform (margin_transformation (mediabox_width p) (mediabox_height p)
                                     (margin_inch * 72)) (x, y))
                   \<le> mediabox_width p - margin_inch * 72
                 \<and> margin_inch * 72
                   \<le> snd (transform (margin_transformation (mediabox_width p) (mediabox_height p)
                                       (margin_inch * 72)) (x, y))
                 \<and> snd (transform (margin_transformation (mediabox_width p) (mediabox_height p)
                                     (margin_inch * 72)) (x, y))
                   \<le> mediabox_height p - margin_inch * 72)"
proof -
  let ?w = "mediabox_width p" and ?h = "mediabox_height p" and ?m = "margin_inch * 72"
  let ?q = "add_transformation (margin_transformation ?w ?h ?m) p"
  from assms have eq: "apply_margin_to_page margin_inch p = Inr ?q"
    by (simp add: apply_margin_to_page_eq)
  have box: "mediabox_width ?q = ?w" "mediabox_height ?q = ?h"
    by (simp_all add: add_transformation_def)
  note b = margin_scale_bounds [OF assms]
  have "\<forall>x y. 0 \<le> x \<and> x \<le> ?w \<and> 0 \<le> y \<and> y \<le> ?h \<longrightarrow>
          ?m \<le> fst (transform (margin_transformation ?w ?h ?m) (x, y))
          \<and> fst (transform (margin_transformation ?w ?h ?m) (x, y)) \<le> ?w - ?m
          \<and> ?m \<le> snd (transform (margin_transformation ?w ?h ?m) (x, y))
          \<and> snd (transform (margin_transformation ?w ?h ?m) (x, y)) \<le> ?h - ?m"
    using scaled_coordinate_in_margin [OF b(1) b(2)] scaled_coordinate_in_margin [OF b(1) b(3)]
    by (simp add: transform_margin)
  with eq box show ?thesis by blast
qed

theorem apply_margin_to_page_within_margin_witness:
  "(0::real) < 612 \<and> (0::real) < 792 \<and> 2 * ((1 / 4) * 72) < min (612::real) 792
   \<and> apply_margin_to_page (1 / 4) letter_template_page
       = Inr \<lparr>mediabox_width = 612, mediabox_height = 792,
              layers = [(Template_Art ''MUS_Long.pdf'' 0,
                         [Scale (16 / 17) (16 / 17), Translate 18 (396 / 17)])]\<rparr>
   \<and> transform [Scale (16 / 17) (16 / 17), Translate 18 (396 / 17)] (612, 792)
       = (594, 792 - 396 / 17)"
  using apply_margin_to_page_within_margin [of letter_template_page "1 / 4"]
  by (simp add: letter_template_page_def template_page_def apply_margin_to_page_def
      add_transformation_def transform_def margin_transformation_def margin_scale_def Let_def)

section \<open>Short-form pages\<close>

lemma apply_margin_overlay:
  "apply_margin_to_page (1 / 4) (create_overlay data is_short) = Inr (margined_overlay data is_short)"
  by (simp add: apply_margin_to_page_eq create_overlay_def margined_overlay_def)

lemma layers_margined_overlay:
  "layers (margined_overlay data is_short)
     = [(Overlay_Text data is_short, margin_transformation 612 792 18)]"
  by (simp add: margined_overlay_def add_transformation_def create_overlay_def)

lemma short_form_page_eq:
  "short_form_page (box # boxes) t_name judge ctx comp1 comp2
     = Inr (two_up_page box t_name judge ctx (comp1, comp2))"
  by (simp add: short_form_page_def apply_margin_overlay two_up_page_def split: option.splits)

lemma concat_results_singletons:
  "concat_results (map (\<lambda>x. Inr [f x]) xs) = Inr (map f xs)"
  by (induction xs) auto

lemma short_form_pages_eq:
  "short_form_pages (box # boxes) t_name judge ctx competitor_list
     = Inr (map (two_up_page box t_name judge ctx) (pairs competitor_list))"
proof -
  have "(\<lambda>(comp1, comp2).
          case short_form_page (box # boxes) t_name judge ctx comp1 comp2 of
            Inl e \<Rightarrow> Inl e | Inr target_page \<Rightarrow> Inr [target_page])
        = (\<lambda>pr. Inr [two_up_page box t_name judge ctx pr])"
    by (auto simp: short_form_page_eq fun_eq_iff)
  then show ?thesis
    by (simp add: short_form_pages_def concat_results_singletons)
qed

lemma length_pairs: "length (pairs xs) = (length xs + 1) div 2"
  by (induction xs rule: pairs.induct) auto

lemma nth_pairs:
  "i < length (pairs xs) \<Longrightarrow>
   pairs xs ! i = (xs ! (2 * i), if 2 * i + 1 < length xs then Some (xs ! (2 * i + 1)) else None)"
proof (induction xs arbitrary: i rule: pairs.induct)
  case 1
  then show ?case by simp
next
  case (2 x)
  then show ?case by simp
next
  case (3 x y zs)
  show ?case
  proof (cases i)
    case 0
    then show ?thesis by simp
  next
    case (Suc j)
    with 3 show ?thesis by simp
  qed
qed

lemma layers_two_up_page:
  "layers (two_up_page box t_name judge ctx (c1, c2)) =
     (Template_Art t_name 0, [])
     # (Overlay_Text (get_page_data judge c1 ctx) True, margin_transformation 612 792 18)
     # (case c2 of
          None \<Rightarrow> []
        | Some c \<Rightarrow> [(Overlay_Text (get_page_data judge c ctx) True,
                       margin_transformation 612 792 18 @ [Rotate 180, Translate 612 792])])"
  by (simp add: two_up_page_def merge_page_def template_page_def layers_margined_overlay
      add_transformation_def split: option.splits)

lemma rotate_180_translate:
  "transform [Rotate 180, Translate 612 792] (x, y) = (612 - x, 792 - y)"
  by (simp add: transform_def)

text \<open>
  C5. For a short template with at least one page and a list of \<open>N\<close> competitors, the
  short-form loop returns (it does not raise) \<open>(N + 1) div 2\<close> pages, that is
  \<open>N / 2\<close> rounded up. Page \<open>i\<close> has the media box of the template page and shows the
  artwork of the template, then the overlay of competitor \<open>2i\<close> with the margin
  transformation only, and then, where competitor \<open>2i + 1\<close> exists, the overlay of that
  competitor with the margin transformation followed by a rotation by 180 degrees and
  a translation by (612, 792); on the last page of an odd list there is no second
  overlay. The rotation and translation map a point \<open>(x, y)\<close> to
  \<open>(612 - x, 792 - y)\<close>.
\<close>

theorem short_form_two_up:
  "\<exists>pages. short_form_pages (box # boxes) t_name judge ctx competitor_list = Inr pages
     \<and> length pages = (length competitor_list + 1) div 2
     \<and> (\<forall>i < length pages.
          mediabox_width (pages ! i) = fst box \<and> mediabox_height (pages ! i) = snd box
          \<and> layers (pages ! i) =
            (Template_Art t_name 0, [])
            # (Overlay_Text (get_page_data judge (competitor_list ! (2 * i)) ctx) True,
               margin_transformation 612 792 18)
            # (if 2 * i + 1 < length competitor_list
               then [(Overlay_Text (get_page_data judge (competitor_list ! (2 * i + 1)) ctx) True,
                      margin_transformation 612 792 18 @ [Rotate 180, Translate 612 792])]
               else []))
     \<and> transform [Rotate 180, Translate 612 792] (x, y) = (612 - x, 792 - y)"
proof -
  let ?pages = "map (two_up_page box t_name judge ctx) (pairs competitor_list)"
  have "\<forall>i < length ?pages.
          mediabox_width (?pages ! i) = fst box \<and> mediabox_height (?pages ! i) = snd box
          \<and> layers (?pages ! i) =
            (Template_Art t_name 0, [])
            # (Overlay_Text (get_page_data judge (competitor_list ! (2 * i)) ctx) True,
               margin_transformation 612 792 18)
            # (if 2 * i + 1 < length competitor_list
               then [(Overlay_Text (get_page_data judge (competitor_list ! (2 * i + 1)) ctx) True,
                      margin_transformation 612 792 18 @ [Rotate 180, Translate 612 792])]
               else [])"
  proof (intro allI impI)
    fix i assume "i < length ?pages"
    then have i: "i < length (pairs competitor_list)" by simp
    have box: "mediabox_width (two_up_page box t_name judge ctx pr) = fst box"
      "mediabox_height (two_up_page box t_name judge ctx pr) = snd box" for pr
      by (simp_all add: two_up_page_def merge_page_def template_page_def split: option.splits)
    show "mediabox_width (?pages ! i) = fst box \<and> mediabox_height (?pages ! i) = snd box
          \<and> layers (?pages ! i) =
            (Template_Art t_name 0, [])
            # (Overlay_Text (get_page_data judge (competitor_list ! (2 * i)) ctx) True,
               margin_transformation 612 792 18)
            # (if 2 * i + 1 < length competitor_list
               then [(Overlay_Text (get_page_data judge (competitor_list ! (2 * i + 1)) ctx) True,
                      margin_transformation 612 792 18 @ [Rotate 180, Translate 612 792])]
               else [])"
      using i by (simp add: nth_pairs layers_two_up_page box)
  qed
  then show ?thesis
    by (simp add: short_form_pages_eq length_pairs rotate_180_translate)
qed

theorem short_form_two_up_witness:
  "\<exists>pages. short_form_pages [(612, 792)] ''MUS_Short.pdf'' (scenario_judge ''Ann'' ''Official'')
              scenario_context three_competitors = Inr pages
     \<and> length pages = 2 \<and> (1::nat) < length pages
     \<and> layers (pages ! 0) =
         [(Template_Art ''MUS_Short.pdf'' 0, []),
          (Overlay_Text (get_page_data (scenario_judge ''Ann'' ''Official'')
                           (three_competitors ! 0) scenario_context) True,
           margin_transformation 612 792 18),
          (Overlay_Text (get_page_data (scenario_judge ''Ann'' ''Official'')
                           (three_competitors ! 1) scenario_context) True,
           margin_transformation 612 792 18 @ [Rotate 180, Translate 612 792])]
     \<and> layers (pages ! 1) =
         [(Template_Art ''MUS_Short.pdf'' 0, []),
          (Overlay_Text (get_page_data (scenario_judge ''Ann'' ''Official'')
                           (three_competitors ! 2) scenario_context) True,
           margin_transformation 612 792 18)]
     \<and> transform [Rotate 180, Translate 612 792] (50, 765) = (562, 27)"
  using short_form_two_up [of "(612, 792)" "[]" "''MUS_Short.pdf''"
      "scenario_judge ''Ann'' ''Official''" scenario_context three_competitors 50 765]
  by (simp add: short_form_pages_eq three_competitors_def layers_two_up_page)

section \<open>Option 1: the packets\<close>

lemma concat_results_Inr: "concat_results (map (\<lambda>x. Inr (f x)) xs) = Inr (concat (map f xs))"
  by (induction xs) auto

lemma long_form_pages_eq:
  "long_form_pages sizes t_name judge ctx competitor_list =
     Inr (concat (map (\<lambda>cmp. map (long_page t_name judge ctx cmp) (enumerate 0 sizes))
                      competitor_list))"
proof -
  have inner: "(\<lambda>(i_page, box).
            let target_page = template_page t_name i_page box
            in if i_page = 0
               then (case apply_margin_to_page (1 / 4)
                            (create_overlay (get_page_data judge cmp ctx) False) of
                       Inl e \<Rightarrow> Inl e
                     | Inr info_page \<Rightarrow> Inr [merge_page target_page info_page])
               else Inr [target_page])
        = (\<lambda>ib. Inr [long_page t_name judge ctx cmp ib])" for cmp
    by (auto simp: fun_eq_iff long_page_def apply_margin_overlay)
  show ?thesis
    by (simp add: long_form_pages_def inner concat_results_singletons concat_results_Inr)
qed

lemma template_names:
  "contains ''Long'' ''MUS_Long.pdf''" "\<not> contains ''Short'' ''MUS_Long.pdf''"
  "contains ''Long'' ''PER_Long.pdf''" "\<not> contains ''Short'' ''PER_Long.pdf''"
  "contains ''Long'' ''SNG_Long.pdf''" "\<not> contains ''Short'' ''SNG_Long.pdf''"
  "\<not> contains ''Long'' ''MUS_Short.pdf''" "\<not> contains ''Long'' ''PER_Short.pdf''"
  "\<not> contains ''Long'' ''SNG_Short.pdf''"
  by code_simp+

lemma format_mapping_cases:
  assumes "map_of FORMAT_MAPPING c = Some ts"
  shows "ts \<noteq> [] \<and> (\<forall>t \<in> set ts. contains ''Long'' t \<longrightarrow> \<not> contains ''Short'' t)"
  using assms by (auto simp: FORMAT_MAPPING_def template_names split: if_splits)

lemma judge_template_pages_eq:
  assumes "contains ''Long'' t_name \<longrightarrow> \<not> contains ''Short'' t_name"
  shows "judge_template_pages files judge ctx competitor_list t_name =
     Inr (if contains ''Long'' t_name
          then long_pages_of files judge ctx competitor_list t_name else [])"
  using assms
  by (auto simp: judge_template_pages_def long_pages_of_def long_form_pages_eq split: option.splits)

lemma concat_results_cong_Inr:
  "(\<And>x. x \<in> set xs \<Longrightarrow> f x = Inr (g x)) \<Longrightarrow> concat_results (map f xs) = Inr (concat (map g xs))"
  by (induction xs) auto

lemma judge_packet_eq:
  "judge_packet files ctx competitor_list judge =
     Inr (if Number judge = Some 0 \<or> packet_pages files ctx competitor_list judge = [] then []
          else [(safe_session ctx @ ''_'' @ clean_filename (Name judge) @ ''_''
                   @ safe_date ctx @ ''.pdf'',
                 packet_pages files ctx competitor_list judge)])"
proof (cases "map_of FORMAT_MAPPING (Category judge)")
  case None
  then show ?thesis by (simp add: judge_packet_def packet_pages_def)
next
  case (Some ts)
  note fm = format_mapping_cases [OF Some]
  have "concat_results (map (judge_template_pages files judge ctx competitor_list) ts)
      = Inr (concat (map (\<lambda>t_name. if contains ''Long'' t_name
                                then long_pages_of files judge ctx competitor_list t_name
                                else []) ts))"
    by (rule concat_results_cong_Inr) (use fm in \<open>simp add: judge_template_pages_eq\<close>)
  with Some fm show ?thesis
    by (simp add: judge_packet_def packet_pages_def)
qed

lemma generated_pdfs_eq:
  "generated_pdfs files ctx active_judges competitor_list =
     Inr (concat (map (\<lambda>judge.
            if Number judge = Some 0 \<or> packet_pages files ctx competitor_list judge = [] then []
            else [(safe_session ctx @ ''_'' @ clean_filename (Name judge) @ ''_''
                     @ safe_date ctx @ ''.pdf'',
                   packet_pages files ctx competitor_list judge)]) active_judges))"
  by (simp add: generated_pdfs_def judge_packet_eq [abs_def] concat_results_Inr)

lemma long_page_layers:
  "length (layers (long_page t_name judge ctx cmp ib)) \<le> 2
   \<and> (\<forall>(c, t) \<in> set (layers (long_page t_name judge ctx cmp ib)).
        c = Template_Art t_name (fst ib) \<or> (\<exists>d. c = Overlay_Text d False))"
  by (simp add: long_page_def merge_page_def template_page_def layers_margined_overlay)

lemma packet_pages_long:
  assumes "p \<in> set (packet_pages files ctx competitor_list judge)"
  shows "length (layers p) \<le> 2 \<and> (\<forall>(c, t) \<in> set (layers p). long_form_content c)"
proof -
  from assms obtain ts t_name where "contains ''Long'' t_name"
      and "p \<in> set (long_pages_of files judge ctx competitor_list t_name)"
    by (auto simp: packet_pages_def split: option.splits if_splits)
  then obtain cmp ib where p: "p = long_page t_name judge ctx cmp ib"
    by (auto simp: long_pages_of_def split: option.splits)
  with \<open>contains ''Long'' t_name\<close> long_page_layers [of t_name judge ctx cmp ib]
  show ?thesis by (auto simp del: contains.simps)
qed

text \<open>
  The names and the date of the scenario, evaluated.
\<close>

lemma scenario_names:
  "safe_session scenario_context = ''Quartet Semi-Finals''"
  "safe_date scenario_context = ''05-01-2024''"
  "district scenario_context = ''Example''"
  by code_simp+

lemma scenario_date: "date scenario_context = ''05/01/2024''"
  by code_simp

lemma clean_filename_Ann: "clean_filename ''Ann'' = ''Ann''"
  by code_simp

text \<open>
  C7. In Option 1 a template whose name does not contain \<open>Long\<close> adds no page to the
  packet of any judge, whether its file exists or not. The loop over the judges always
  returns (it does not raise), and on every page of every packet every piece of content
  is the artwork of a template whose name contains \<open>Long\<close> or an overlay drawn with
  \<open>is_short = False\<close>, with at most one overlay on the artwork: no short-form page is
  produced.
\<close>

theorem by_judge_long_templates_only:
  "(\<not> contains ''Long'' t_name \<longrightarrow>
      judge_template_pages files judge ctx competitor_list t_name = Inr [])
   \<and> (\<exists>pdfs. generated_pdfs files ctx active_judges competitor_list = Inr pdfs
        \<and> (\<forall>(fname, pages) \<in> set pdfs. \<forall>p \<in> set pages.
              length (layers p) \<le> 2 \<and> (\<forall>(c, t) \<in> set (layers p). long_form_content c)))"
proof -
  have "\<not> contains ''Long'' t_name \<longrightarrow>
      judge_template_pages files judge ctx competitor_list t_name = Inr []"
    by (simp add: judge_template_pages_def)
  moreover have "\<forall>(fname, pages) \<in> set (concat (map (\<lambda>judge.
            if Number judge = Some 0 \<or> packet_pages files ctx competitor_list judge = [] then []
            else [(safe_session ctx @ ''_'' @ clean_filename (Name judge) @ ''_''
                     @ safe_date ctx @ ''.pdf'',
                   packet_pages files ctx competitor_list judge)]) active_judges)).
          \<forall>p \<in> set pages.
            length (layers p) \<le> 2 \<and> (\<forall>(c, t) \<in> set (layers p). long_form_content c)"
    using packet_pages_long by (auto split: if_splits)
  ultimately show ?thesis by (simp add: generated_pdfs_eq)
qed

lemma both_templates_packet_pages:
  "packet_pages both_templates scenario_context [scenario_competitor '''']
       (scenario_judge ''Ann'' ''Official'')
     = [merge_page (template_page ''MUS_Long.pdf'' 0 (612, 792))
          (margined_overlay
             (get_page_data (scenario_judge ''Ann'' ''Official'') (scenario_competitor '''')
                scenario_context)
             False)]"
  by (simp add: packet_pages_def scenario_judge_def FORMAT_MAPPING_def template_names
      long_pages_of_def both_templates_def template_path_def TEMPLATE_DIR_def long_page_def)

lemma both_templates_short: "both_templates (template_path ''MUS_Short.pdf'') = Some [(612, 792)]"
  by (simp add: both_templates_def template_path_def TEMPLATE_DIR_def)

lemma both_templates_generated:
  "generated_pdfs both_templates scenario_context [scenario_judge ''Ann'' ''Official'']
        [scenario_competitor '''']
       = Inr [(''Quartet Semi-Finals_Ann_05-01-2024.pdf'',
               [merge_page (template_page ''MUS_Long.pdf'' 0 (612, 792))
                  (margined_overlay
                     (get_page_data (scenario_judge ''Ann'' ''Official'')
                        (scenario_competitor '''') scenario_context)
                     False)])]"
proof -
  have "Number (scenario_judge ''Ann'' ''Official'') \<noteq> Some 0"
    "Name (scenario_judge ''Ann'' ''Official'') = ''Ann''"
    by (simp_all add: scenario_judge_def)
  then show ?thesis
    by (simp add: generated_pdfs_eq both_templates_packet_pages scenario_names clean_filename_Ann)
qed

theorem by_judge_long_templates_only_witness:
  "\<not> contains ''Long'' ''MUS_Short.pdf''
   \<and> both_templates (template_path ''MUS_Short.pdf'') = Some [(612, 792)]
   \<and> judge_template_pages both_templates (scenario_judge ''Ann'' ''Official'') scenario_context
        [scenario_competitor ''''] ''MUS_Short.pdf'' = Inr []
   \<and> generated_pdfs both_templates scenario_context [scenario_judge ''Ann'' ''Official'']
        [scenario_competitor '''']
       = Inr [(''Quartet Semi-Finals_Ann_05-01-2024.pdf'',
               [merge_page (template_page ''MUS_Long.pdf'' 0 (612, 792))
                  (margined_overlay
                     (get_page_data (scenario_judge ''Ann'' ''Official'')
                        (scenario_competitor '''') scenario_context)
                     False)])]"
  using by_judge_long_templates_only [of "''MUS_Short.pdf''" both_templates
      "scenario_judge ''Ann'' ''Official''" scenario_context "[scenario_competitor '''']"
      "[scenario_judge ''Ann'' ''Official'']"]
    template_names(7) both_templates_short both_templates_generated
  by (simp only: simp_thms)

section \<open>The end-to-end scenario\<close>

lemma scenario_packet_pages:
  "packet_pages (scenario_files box) scenario_context [scenario_competitor dir]
       (scenario_judge name ty)
     = [merge_page (template_page ''MUS_Long.pdf'' 0 box)
          (margined_overlay
             (get_page_data (scenario_judge name ty) (scenario_competitor dir) scenario_context)
             False)]"
  by (simp add: packet_pages_def scenario_judge_def FORMAT_MAPPING_def template_names
      long_pages_of_def scenario_files_def template_path_def TEMPLATE_DIR_def long_page_def)

lemma scenario_outcome:
  "generate_by_judge (scenario_files box) scenario_context [scenario_judge name ty]
       [scenario_competitor dir]
     = Download (''Quartet Semi-Finals_'' @ clean_filename name @ ''_05-01-2024.pdf'')
         (Pdf [merge_page (template_page ''MUS_Long.pdf'' 0 box)
                 (margined_overlay
                    (get_page_data (scenario_judge name ty) (scenario_competitor dir)
                       scenario_context)
                    False)])"
proof -
  have "Print (scenario_judge name ty)" "Print (scenario_competitor dir)"
    "Number (scenario_judge name ty) \<noteq> Some 0" "Name (scenario_judge name ty) = name"
    by (simp_all add: scenario_judge_def scenario_competitor_def)
  then show ?thesis
    by (simp add: generate_by_judge_def generated_pdfs_eq scenario_packet_pages scenario_names)
qed

text \<open>
  C9 as stated: the file is named \<open>Quartet_Semi-Finals_NAME_05-01-2024.pdf\<close>, with
  an underscore between the two words of the session. For the judge named Ann the
  code offers \<open>Quartet Semi-Finals_Ann_05-01-2024.pdf\<close>: \<open>clean_filename\<close> keeps the
  space of the session.
\<close>

theorem scenario_file_name_counterexample:
  "download_name (generate_by_judge (scenario_files (612, 792)) scenario_context
                    [scenario_judge ''Ann'' ''Official''] [scenario_competitor ''''])
     = Some ''Quartet Semi-Finals_Ann_05-01-2024.pdf''
   \<and> download_name (generate_by_judge (scenario_files (612, 792)) scenario_context
                      [scenario_judge ''Ann'' ''Official''] [scenario_competitor ''''])
     \<noteq> Some ''Quartet_Semi-Finals_Ann_05-01-2024.pdf''"
  by (simp add: scenario_outcome download_name_def clean_filename_Ann)

text \<open>
  C9, amended. In the scenario, Option 1 offers exactly one PDF file for download; it
  holds exactly one page, the page of the MUS long template with the overlay of the
  judge and the competitor merged onto it; and its name is the session, the judge's
  name and the date, each passed through \<open>clean_filename\<close> and joined by underscores:
  \<open>Quartet Semi-Finals\<close> (the space stays), the cleaned name, \<open>05-01-2024\<close>.
\<close>

theorem scenario_one_pdf_one_page:
  "generate_by_judge (scenario_files box) scenario_context [scenario_judge name ty]
       [scenario_competitor dir]
     = Download (''Quartet Semi-Finals_'' @ clean_filename name @ ''_05-01-2024.pdf'')
         (Pdf [merge_page (template_page ''MUS_Long.pdf'' 0 box)
                 (margined_overlay
                    (get_page_data (scenario_judge name ty) (scenario_competitor dir)
                       scenario_context)
                    False)])
   \<and> clean_filename (session scenario_context) = ''Quartet Semi-Finals''
   \<and> date scenario_context = ''05/01/2024''
   \<and> clean_filename (date scenario_context) = ''05-01-2024''"
  using scenario_outcome [of box name ty dir] scenario_names scenario_date
  by (simp add: safe_session_def safe_date_def)

theorem scenario_one_pdf_one_page_witness:
  "generate_by_judge (scenario_files (612, 792)) scenario_context
       [scenario_judge ''Ann'' ''Official''] [scenario_competitor '''']
     = Download ''Quartet Semi-Finals_Ann_05-01-2024.pdf''
         (Pdf [merge_page (template_page ''MUS_Long.pdf'' 0 (612, 792))
                 (margined_overlay
                    (get_page_data (scenario_judge ''Ann'' ''Official'')
                       (scenario_competitor '''') scenario_context)
                    False)])"
  using scenario_one_pdf_one_page [of "(612, 792)" "''Ann''" "''Official''" "''''"]
  by (simp add: clean_filename_Ann)

section \<open>Judges with number 0\<close>

lemma concat_results_filter:
  "(\<And>x. x \<in> set xs \<Longrightarrow> \<not> P x \<Longrightarrow> f x = Inr []) \<Longrightarrow>
   concat_results (map f (filter P xs)) = concat_results (map f xs)"
proof (induction xs)
  case Nil
  then show ?case by simp
next
  case (Cons x xs)
  then have IH: "concat_results (map f (filter P xs)) = concat_results (map f xs)" by simp
  show ?case
  proof (cases "P x")
    case True
    then show ?thesis by (simp only: filter.simps list.map concat_results.simps IH if_True)
  next
    case False
    with Cons.prems have "f x = Inr []" by simp
    with False show ?thesis by (simp add: IH split: sum.splits)
  qed
qed

lemma generated_pdfs_nonzero:
  "generated_pdfs files ctx (filter nonzero active_judges) competitor_list
     = generated_pdfs files ctx active_judges competitor_list"
  unfolding generated_pdfs_def
  by (rule concat_results_filter) (simp add: nonzero_def judge_packet_def)

lemma category_template_pages_nonzero:
  "category_template_pages sizes t_name ctx competitor_list (filter nonzero cat_judges)
     = category_template_pages sizes t_name ctx competitor_list cat_judges"
  unfolding category_template_pages_def
  by (rule concat_results_filter) (simp add: nonzero_def)

lemma concat_results_all_empty:
  "(\<And>x. x \<in> set xs \<Longrightarrow> f x = Inr []) \<Longrightarrow> concat_results (map f xs) = Inr []"
  by (induction xs) auto

lemma category_entries_no_judges:
  "category_entries files ctx competitor_list formats [] = Inr []"
  unfolding category_entries_def
  by (rule concat_results_all_empty) (simp add: category_template_pages_def split: option.splits)

lemma category_entries_nonzero:
  "category_entries files ctx competitor_list formats (filter nonzero cat_judges)
     = category_entries files ctx competitor_list formats cat_judges"
  unfolding category_entries_def category_template_pages_nonzero ..

lemma category_files_entries:
  "category_files files ctx active_judges competitor_list =
     concat_results
       (map (\<lambda>(cat, formats).
               category_entries files ctx competitor_list formats
                 (filter (\<lambda>j. Category j = cat) active_judges))
            FORMAT_MAPPING)"
proof -
  have "(if cat_judges = [] then Inr []
         else category_entries files ctx competitor_list formats cat_judges)
        = category_entries files ctx competitor_list formats cat_judges" for formats cat_judges
    by (simp add: category_entries_no_judges)
  then show ?thesis
    unfolding category_files_def category_entries_def Let_def by simp
qed

lemma category_files_nonzero:
  "category_files files ctx (filter nonzero active_judges) competitor_list
     = category_files files ctx active_judges competitor_list"
proof -
  have "filter (\<lambda>j. Category j = cat) (filter nonzero active_judges)
      = filter nonzero (filter (\<lambda>j. Category j = cat) active_judges)" for cat
    by (simp add: conj_commute)
  then show ?thesis
    unfolding category_files_entries by (simp only: category_entries_nonzero)
qed

lemma generate_rtf_content_nonzero:
  "generate_rtf_content (filter nonzero judges_df) competitors_df ctx
     = generate_rtf_content judges_df competitors_df ctx"
  by (simp add: generate_rtf_content_def nonzero_def [abs_def])

lemma generate_folder_labels_rtf_nonzero:
  "generate_folder_labels_rtf (filter nonzero judges_df) ctx
     = generate_folder_labels_rtf judges_df ctx"
proof -
  have "filter (\<lambda>j. Number j \<noteq> Some 0) (filter Print (filter nonzero judges_df))
      = filter (\<lambda>j. Number j \<noteq> Some 0) (filter Print judges_df)"
    by (auto simp: nonzero_def intro: filter_cong)
  then show ?thesis by (simp add: generate_folder_labels_rtf_def)
qed

text \<open>
  What Option 3 does for a category whose only judge with print flag true has number
  0: the archive gets the label file of the category, and the file holds no label.
\<close>

lemma label_files_zero_judge_only:
  "label_files scenario_context [zero_judge] [scenario_competitor '''']
     = [(''Quartet Semi-Finals_SNG_Labels.rtf'',
         Rtf (generate_rtf_content [] [scenario_competitor ''''] scenario_context))]"
  by (simp add: label_files_def zero_judge_def scenario_names generate_rtf_content_def)

text \<open>
  What does hold in every mode: the list of packets of Option 1, the archive entries of
  Option 2, the label document of a category and the folder-label document are the
  same for a table of judges and for the table without its judges of number 0.
\<close>

lemma number_zero_judges_elsewhere:
  "generated_pdfs files ctx (filter Print (filter nonzero final_judges)) competitor_list
     = generated_pdfs files ctx (filter Print final_judges) competitor_list
   \<and> category_files files ctx (filter Print (filter nonzero final_judges)) competitor_list
     = category_files files ctx (filter Print final_judges) competitor_list
   \<and> generate_rtf_content
       (filter (\<lambda>j. Category j = cat) (filter Print (filter nonzero final_judges)))
       competitor_list ctx
     = generate_rtf_content (filter (\<lambda>j. Category j = cat) (filter Print final_judges))
         competitor_list ctx
   \<and> generate_folder_labels_rtf (filter nonzero final_judges) ctx
     = generate_folder_labels_rtf final_judges ctx"
proof -
  have pr: "filter Print (filter nonzero final_judges) = filter nonzero (filter Print final_judges)"
    by (simp add: conj_commute)
  have ca: "filter (\<lambda>j. Category j = cat) (filter nonzero (filter Print final_judges))
      = filter nonzero (filter (\<lambda>j. Category j = cat) (filter Print final_judges))"
    by (auto intro: filter_cong)
  show ?thesis
    by (simp only: pr ca generated_pdfs_nonzero category_files_nonzero
        generate_rtf_content_nonzero generate_folder_labels_rtf_nonzero)
qed

text \<open>
  C3. A judge with number 0 is to add no page, no label block and no document in any
  generation mode. Option 3 breaks this: it tests whether a category has judges before
  \<open>generate_rtf_content\<close> drops the judges with number 0. With a judge of MUS with
  number 1 and a judge of SNG with number 0, both with print flag true, the archive
  holds a label file for SNG as well as the one for MUS; without the judge of number 0
  it holds the file for MUS only. With the judge of number 0 alone, Option 3 offers an
  archive whose single file holds no label.
\<close>

theorem labels_only_number_zero_judge_adds_file:
  "map fst (label_files scenario_context
              (filter Print [scenario_judge ''Ann'' ''Official'', zero_judge])
              (filter Print [scenario_competitor '''']))
     = [''Quartet Semi-Finals_MUS_Labels.rtf'', ''Quartet Semi-Finals_SNG_Labels.rtf'']
   \<and> map fst (label_files scenario_context
                (filter Print (filter nonzero [scenario_judge ''Ann'' ''Official'', zero_judge]))
                (filter Print [scenario_competitor '''']))
     = [''Quartet Semi-Finals_MUS_Labels.rtf'']
   \<and> generate_labels scenario_context [zero_judge] [scenario_competitor '''']
     = Download ''Quartet Semi-Finals_Labels.zip''
         (Zip [(''Quartet Semi-Finals_SNG_Labels.rtf'',
                Rtf (generate_rtf_content [] [scenario_competitor ''''] scenario_context))])
   \<and> generate_labels scenario_context (filter nonzero [zero_judge]) [scenario_competitor '''']
     = Error_Message ''Missing Data''"
proof -
  have files: "label_files scenario_context [scenario_judge ''Ann'' ''Official'', zero_judge]
                 [scenario_competitor '''']
      = [(''Quartet Semi-Finals_MUS_Labels.rtf'',
          Rtf (generate_rtf_content [scenario_judge ''Ann'' ''Official'']
                 [scenario_competitor ''''] scenario_context)),
         (''Quartet Semi-Finals_SNG_Labels.rtf'',
          Rtf (generate_rtf_content [zero_judge] [scenario_competitor ''''] scenario_context))]"
    by (simp add: label_files_def zero_judge_def scenario_judge_def scenario_names)
  have without: "label_files scenario_context [scenario_judge ''Ann'' ''Official'']
                 [scenario_competitor '''']
      = [(''Quartet Semi-Finals_MUS_Labels.rtf'',
          Rtf (generate_rtf_content [scenario_judge ''Ann'' ''Official'']
                 [scenario_competitor ''''] scenario_context))]"
    by (simp add: label_files_def scenario_judge_def scenario_names)
  have flags: "Print (scenario_judge ''Ann'' ''Official'')" "Print zero_judge"
    "Print (scenario_competitor '''')" "nonzero (scenario_judge ''Ann'' ''Official'')"
    "\<not> nonzero zero_judge"
    by (simp_all add: scenario_judge_def zero_judge_def scenario_competitor_def nonzero_def)
  have alone: "generate_labels scenario_context [zero_judge] [scenario_competitor '''']
     = Download ''Quartet Semi-Finals_Labels.zip''
         (Zip [(''Quartet Semi-Finals_SNG_Labels.rtf'',
                Rtf (generate_rtf_content [] [scenario_competitor ''''] scenario_context))])"
    using flags
    by (simp add: generate_labels_def label_files_zero_judge_only scenario_names)
  have none: "generate_labels scenario_context (filter nonzero [zero_judge])
                [scenario_competitor '''']
     = Error_Message ''Missing Data''"
    using flags by (simp add: generate_labels_def scenario_names)
  from files without flags alone none show ?thesis by simp
qed

end
